theory Spec2Isabelle
  imports Main "HOL-Library.Word" "HOL-Library.AList"
begin

section \<open>The gomatrix client: transport and sync loop\<close>

text \<open>
  A shallow embedding of \<^verbatim>\<open>MakeRequest\<close>, \<^verbatim>\<open>HandleRetry\<close>, \<^verbatim>\<open>CreateFilter\<close>,
  \<^verbatim>\<open>SyncRequest\<close> and \<^verbatim>\<open>Sync\<close> of the client.

  The client talks to collaborators whose code is not part of the functions embedded here:
  the HTTP client (\<^verbatim>\<open>cli.Client.Do\<close>), the \<^verbatim>\<open>Storer\<close> and \<^verbatim>\<open>Syncer\<close> interfaces, the
  clock, other goroutines that call \<^verbatim>\<open>StopSync\<close> or \<^verbatim>\<open>Sync\<close>, and the Go libraries
  \<^verbatim>\<open>encoding/json\<close>, \<^verbatim>\<open>net/http\<close>, \<^verbatim>\<open>net/url\<close> and \<^verbatim>\<open>time\<close>. They are the fields of
  an environment record: operations with an effect take and return a world of an arbitrary
  type \<open>'w\<close>, library functions are pure. Every theorem below holds for every environment.

  Every call that leaves the client (and every call of \<^verbatim>\<open>SyncRequest\<close> and
  \<^verbatim>\<open>CreateFilter\<close>) is recorded in a trace, newest event first.

  \<^verbatim>\<open>Sync\<close> loops until something stops it and \<^verbatim>\<open>MakeRequest\<close> calls itself on every
  429, so both take a number of steps they may use; a run that uses them up yields
  \<open>OutOfFuel\<close> together with the state reached so far. The number is a bound only: a run
  that returns with some number returns the same with any larger one (\<open>Sync_fuel\<close>).

  What the embedding takes for granted:
  \<^item> every collaborator returns when it is called;
  \<^item> the fields \<^verbatim>\<open>UserID\<close>, \<^verbatim>\<open>AccessToken\<close>, \<^verbatim>\<open>Prefix\<close>, \<^verbatim>\<open>HomeserverURL\<close> and
    \<^verbatim>\<open>AppServiceUserID\<close> of the client do not change while a call runs;
  \<^item> \<^verbatim>\<open>int\<close> has 64 bits.
\<close>

subsection \<open>Data\<close>

text \<open>\<^verbatim>\<open>time.Duration\<close> is an \<^verbatim>\<open>int64\<close> count of nanoseconds.\<close>

type_synonym duration = "64 word"

text \<open>\<^verbatim>\<open>RespError\<close> (requests.go): the standard JSON error response.\<close>

record RespError =
  ErrCode :: string
  Err :: string

text \<open>
  Values of Go's \<^verbatim>\<open>error\<close> interface met in this code: errors made by
  \<^verbatim>\<open>errors.New\<close> or returned by a library (a message), a \<^verbatim>\<open>RespError\<close>, and the
  \<^verbatim>\<open>HTTPError\<close> struct with its four fields. A nil \<^verbatim>\<open>error\<close> is \<open>None\<close> of
  \<open>error option\<close>.
\<close>

datatype error =
    ErrorString string
  | RespErrorValue RespError
  | HTTPError (Contents: string) (WrappedError: "error option") (Message: string) (Code: int)

text \<open>
  \<^verbatim>\<open>RespSync\<close> and \<^verbatim>\<open>RespCreateFilter\<close> (requests.go). Of a sync response the code
  embedded here reads \<^verbatim>\<open>NextBatch\<close> only; the other fields (account data, presence, rooms,
  to-device events) are carried as one opaque payload.
\<close>

record RespSync =
  NextBatch :: string
  Payload :: string

record RespCreateFilter =
  FilterID :: string

text \<open>
  A URL as the client assembles it: the homeserver URL, the path elements joined onto it
  and the query parameters, in the order they were first set.
\<close>

record url =
  urlHomeserver :: string
  urlElems :: "string list"
  urlQuery :: "(string \<times> string) list"

record request =
  reqMethod :: string
  reqURL :: url
  reqHeader :: "(string \<times> string) list"
  reqBody :: "string option"

text \<open>
  An \<^verbatim>\<open>http.Response\<close>: status code, header (a key has a list of values) and body. The
  body is a stream: reading it to its end gives its bytes or fails with an error.
\<close>

record response =
  StatusCode :: int
  Header :: "(string \<times> string list) list"
  Body :: "error + string"

text \<open>The fields of \<^verbatim>\<open>Client\<close> that are configuration.\<close>

record client =
  HomeserverURL :: string
  Prefix :: string
  UserID :: string
  AccessToken :: string
  AppServiceUserID :: string

datatype event =
    HttpDo request
  | Sleep duration
  | StoreLoadNextBatch string
  | StoreLoadFilterID string
  | StoreSaveFilterID string string
  | StoreSaveNextBatch string string
  | SyncerGetFilterJSON string
  | SyncerOnFailedSync "RespSync option" error
  | SyncerProcessResponse RespSync string
  | CallCreateFilter string
  | CallSyncRequest int string string bool string

text \<open>
  The mutable part: the client's \<^verbatim>\<open>syncingID\<close> (a \<^verbatim>\<open>uint32\<close>), the world of the
  collaborators, and the trace.
\<close>

record 'w state =
  syncingID :: "32 word"
  world :: 'w
  trace :: "event list"

record ('q, 'w) env =
  jsonEncode :: "'q \<Rightarrow> error + string"
  newRequestError :: "string \<Rightarrow> url \<Rightarrow> error option"
  clientDo :: "request \<Rightarrow> 'w \<Rightarrow> (error + response) \<times> 'w"
  unmarshalRespError :: "string \<Rightarrow> RespError"
  urlPath :: "url \<Rightarrow> string"
  parseHTTPTime :: "string \<Rightarrow> int option"
  timeUntil :: "int \<Rightarrow> 'w \<Rightarrow> duration \<times> 'w"
  decodeRespSync :: "string \<Rightarrow> RespSync option \<Rightarrow> error option \<times> RespSync option"
  decodeRespCreateFilter ::
    "string \<Rightarrow> RespCreateFilter option \<Rightarrow> error option \<times> RespCreateFilter option"
  storeLoadNextBatch :: "string \<Rightarrow> 'w \<Rightarrow> string \<times> 'w"
  storeLoadFilterID :: "string \<Rightarrow> 'w \<Rightarrow> string \<times> 'w"
  storeSaveFilterID :: "string \<Rightarrow> string \<Rightarrow> 'w \<Rightarrow> 'w"
  storeSaveNextBatch :: "string \<Rightarrow> string \<Rightarrow> 'w \<Rightarrow> 'w"
  syncerGetFilterJSON :: "string \<Rightarrow> 'w \<Rightarrow> string \<times> 'w"
  syncerOnFailedSync :: "RespSync option \<Rightarrow> error \<Rightarrow> 'w \<Rightarrow> (duration \<times> error option) \<times> 'w"
  syncerProcessResponse :: "RespSync \<Rightarrow> string \<Rightarrow> 'w \<Rightarrow> (error option \<times> RespSync) \<times> 'w"
  otherIncrements :: "'w \<Rightarrow> nat \<times> 'w"

datatype 'a outcome = OutOfFuel | Panic | Returned 'a

definition log :: "event \<Rightarrow> 'w state \<Rightarrow> 'w state" where
  "log e st = st\<lparr>trace := e # trace st\<rparr>"

subsection \<open>Library functions written out\<close>

text \<open>
  \<^verbatim>\<open>strconv.Atoi\<close> on a platform whose \<^verbatim>\<open>int\<close> has 64 bits: an optional sign, then
  one or more decimal digits; anything else, and a value outside the \<^verbatim>\<open>int64\<close> range, is
  an error.
\<close>

definition digitVal :: "char \<Rightarrow> nat option" where
  "digitVal c =
     (let k = (of_char c :: nat) in if 48 \<le> k \<and> k \<le> 57 then Some (k - 48) else None)"

fun parseDigits :: "nat \<Rightarrow> string \<Rightarrow> nat option" where
  "parseDigits acc [] = Some acc"
| "parseDigits acc (c # cs) =
     (case digitVal c of None \<Rightarrow> None | Some d \<Rightarrow> parseDigits (10 * acc + d) cs)"

definition Atoi :: "string \<Rightarrow> int option" where
  "Atoi s =
     (let neg = (s \<noteq> [] \<and> hd s = CHR ''-'');
          ds = (if s \<noteq> [] \<and> (hd s = CHR ''-'' \<or> hd s = CHR ''+'') then tl s else s)
      in if ds = [] then None
         else (case parseDigits 0 ds of
                 None \<Rightarrow> None
               | Some v \<Rightarrow>
                   (let i = (if neg then - int v else int v)
                    in if - (2 ^ 63) \<le> i \<and> i < 2 ^ 63 then Some i else None)))"

text \<open>\<^verbatim>\<open>strconv.Itoa\<close>.\<close>

fun natDigits :: "nat \<Rightarrow> string" where
  "natDigits n =
     (if n < 10 then [''0123456789'' ! n]
      else natDigits (n div 10) @ [''0123456789'' ! (n mod 10)])"

declare natDigits.simps [simp del]

definition Itoa :: "int \<Rightarrow> string" where
  "Itoa i = (if i < 0 then CHR ''-'' # natDigits (nat (- i)) else natDigits (nat i))"

text \<open>
  \<^verbatim>\<open>http.Header.Get\<close>: the first value of the key, the empty string when the key has
  none. (Keys are kept in their canonical form.)
\<close>

definition headerGet :: "(string \<times> string list) list \<Rightarrow> string \<Rightarrow> string" where
  "headerGet h k = (case map_of h k of None \<Rightarrow> [] | Some [] \<Rightarrow> [] | Some (v # _) \<Rightarrow> v)"

text \<open>\<^verbatim>\<open>time.Second\<close> in nanoseconds.\<close>

definition Second :: duration where
  "Second = 1000000000"

subsection \<open>URLs\<close>

text \<open>
  \<^verbatim>\<open>BuildBaseURL\<close> joins the path elements onto the path of the homeserver URL and
  sets the query parameter \<^verbatim>\<open>user_id\<close> for an application service; how the URL is
  written out as a string (cleaning of the path, a trailing slash, the order of the
  parameters) is left to the record. It is only called with a non-empty list here.
\<close>

definition BuildBaseURL :: "client \<Rightarrow> string list \<Rightarrow> url" where
  "BuildBaseURL cli urlPath' =
     \<lparr> urlHomeserver = HomeserverURL cli,
       urlElems = urlPath',
       urlQuery = (if AppServiceUserID cli \<noteq> [] then [(''user_id'', AppServiceUserID cli)] else []) \<rparr>"

definition BuildURL :: "client \<Rightarrow> string list \<Rightarrow> url" where
  "BuildURL cli urlPath' = BuildBaseURL cli (Prefix cli # urlPath')"

definition BuildURLWithQuery :: "client \<Rightarrow> string list \<Rightarrow> (string \<times> string) list \<Rightarrow> url" where
  "BuildURLWithQuery cli urlPath' query =
     (let u = BuildURL cli urlPath'
      in u\<lparr>urlQuery := foldl (\<lambda>q (k, v). AList.update k v q) (urlQuery u) query\<rparr>)"

subsection \<open>Transport\<close>

text \<open>
  \<^verbatim>\<open>HandleRetry\<close>. \<^verbatim>\<open>time.Parse(http.TimeFormat, ra)\<close> is the environment's
  \<open>parseHTTPTime\<close>, \<^verbatim>\<open>time.Until\<close> reads the clock of the world. The product
  \<^verbatim>\<open>time.Duration(seconds) * time.Second\<close> is computed in \<^verbatim>\<open>int64\<close> and wraps.
\<close>

definition HandleRetry ::
  "('q, 'w) env \<Rightarrow> response \<Rightarrow> duration \<Rightarrow> 'w \<Rightarrow> (duration \<times> error option) \<times> 'w" where
  "HandleRetry env res dur w =
     (let ra = headerGet (Header res) ''Retry-After''
      in if ra = [] then ((dur, None), w)
         else (case parseHTTPTime env ra of
                 Some t \<Rightarrow> (let (d, w') = timeUntil env t w in ((d, None), w'))
               | None \<Rightarrow>
                   (case Atoi ra of
                      Some seconds \<Rightarrow> ((word_of_int seconds * Second, None), w)
                    | None \<Rightarrow> ((dur, Some (ErrorString ''invalid retry-after data'')), w))))"

text \<open>
  The last statement of \<^verbatim>\<open>MakeRequest\<close>: when a result object was passed, decode the
  response body into it and return the decoder's error. A result object is \<open>Some r\<close> with
  its present content \<open>r\<close>; \<open>None\<close> is a nil \<^verbatim>\<open>resBody\<close>. The decoder of the result
  type is the argument \<open>dec\<close>; it gets the bytes and the present content, and a body that
  cannot be read gives the read error. (\<^verbatim>\<open>res.Body\<close> of a response of \<^verbatim>\<open>http.Client\<close> is
  never nil.)
\<close>

definition decodeBody ::
  "(string \<Rightarrow> 'r \<Rightarrow> error option \<times> 'r) \<Rightarrow> response \<Rightarrow> 'r option \<Rightarrow> error option \<times> 'r option" where
  "decodeBody dec res resBody =
     (case resBody of
        None \<Rightarrow> (None, None)
      | Some r \<Rightarrow>
          (case Body res of
             Inl e \<Rightarrow> (Some e, Some r)
           | Inr bytes \<Rightarrow> (let (e, r') = dec bytes r in (e, Some r'))))"

text \<open>
  The first part of \<^verbatim>\<open>MakeRequest\<close>, up to the call of the HTTP client: encode the
  request body when there is one, make the request (\<^verbatim>\<open>http.NewRequest\<close> refuses some
  methods and URLs: \<open>newRequestError\<close>), set the two headers.
\<close>

definition newRequest ::
  "('q, 'w) env \<Rightarrow> client \<Rightarrow> string \<Rightarrow> url \<Rightarrow> 'q option \<Rightarrow> error + request" where
  "newRequest env cli method httpURL reqBody' =
     (case (case reqBody' of
              None \<Rightarrow> Inr None
            | Some b \<Rightarrow> (case jsonEncode env b of Inl e \<Rightarrow> Inl e | Inr buf \<Rightarrow> Inr (Some buf))) of
        Inl e \<Rightarrow> Inl e
      | Inr buf \<Rightarrow>
          (case newRequestError env method httpURL of
             Some e \<Rightarrow> Inl e
           | None \<Rightarrow>
               Inr \<lparr> reqMethod = method, reqURL = httpURL,
                     reqHeader = (''Content-Type'', ''application/json'') #
                       (if AccessToken cli \<noteq> []
                        then [(''Authorization'', ''Bearer '' @ AccessToken cli)] else []),
                     reqBody = buf \<rparr>))"

text \<open>The \<^verbatim>\<open>HTTPError\<close> of the branch for a response that is neither 429 nor 2xx.\<close>

definition httpError :: "('q, 'w) env \<Rightarrow> string \<Rightarrow> request \<Rightarrow> response \<Rightarrow> string \<Rightarrow> error" where
  "httpError env method req res contents =
     (let respErr = unmarshalRespError env contents;
          wrap = (if ErrCode respErr \<noteq> [] then Some (RespErrorValue respErr) else None);
          msg = ''Failed to '' @ method @ '' JSON to '' @ urlPath env (reqURL req);
          msg = (if wrap = None then msg @ '': '' @ contents else msg)
      in HTTPError contents wrap msg (StatusCode res))"

text \<open>
  \<^verbatim>\<open>MakeRequest\<close>. The first argument bounds the depth of the calls of itself. The
  result is the returned error, the result object as the call left it, and the state.
  Go's \<^verbatim>\<open>StatusCode/100\<close> truncates and \<open>div\<close> rounds down; both give 2 exactly for
  the codes 200 to 299.
\<close>

fun MakeRequest ::
  "nat \<Rightarrow> ('q, 'w) env \<Rightarrow> client \<Rightarrow> (string \<Rightarrow> 'r \<Rightarrow> error option \<times> 'r) \<Rightarrow> string \<Rightarrow> url \<Rightarrow>
   'q option \<Rightarrow> 'r option \<Rightarrow> 'w state \<Rightarrow> error option outcome \<times> 'r option \<times> 'w state" where
  "MakeRequest 0 env cli dec method httpURL reqBody' resBody st = (OutOfFuel, resBody, st)"
| "MakeRequest (Suc n) env cli dec method httpURL reqBody' resBody st =
     (case newRequest env cli method httpURL reqBody' of
        Inl e \<Rightarrow> (Returned (Some e), resBody, st)
      | Inr req \<Rightarrow>
               (let (r, w1) = clientDo env req (world st);
                    st1 = log (HttpDo req) (st\<lparr>world := w1\<rparr>)
                in case r of
                     Inl e \<Rightarrow> (Returned (Some e), resBody, st1)
                   | Inr res \<Rightarrow>
                       if StatusCode res = 429 then
                         (let ((dur, err), w2) = HandleRetry env res 5000000000 (world st1);
                              st2 = st1\<lparr>world := w2\<rparr>
                          in case err of
                               Some e \<Rightarrow> (Returned (Some e), resBody, st2)
                             | None \<Rightarrow>
                                 (case MakeRequest n env cli dec method httpURL reqBody' resBody
                                         (log (Sleep dur) st2) of
                                    (Returned _, resBody1, st3) \<Rightarrow>
                                      (let (e, resBody2) = decodeBody dec res resBody1
                                       in (Returned e, resBody2, st3))
                                  | (other, resBody1, st3) \<Rightarrow> (other, resBody1, st3)))
                       else if StatusCode res div 100 \<noteq> 2 then
                         (case Body res of
                            Inl e \<Rightarrow> (Returned (Some e), resBody, st1)
                          | Inr contents \<Rightarrow>
                              (Returned (Some (httpError env method req res contents)), resBody, st1))
                       else
                         (let (e, resBody1) = decodeBody dec res resBody
                          in (Returned e, resBody1, st1))))"

text \<open>
  The \<^verbatim>\<open>Error\<close> methods of \<^verbatim>\<open>RespError\<close> and \<^verbatim>\<open>HTTPError\<close>. The verb
  \<^verbatim>\<open>%v\<close> prints a byte slice as its bytes in decimal, separated by spaces, between
  brackets.
\<close>

fun spaced :: "string list \<Rightarrow> string" where
  "spaced [] = []"
| "spaced [x] = x"
| "spaced (x # y # ys) = x @ '' '' @ spaced (y # ys)"

fun Error :: "error \<Rightarrow> string" where
  "Error (ErrorString s) = s"
| "Error (RespErrorValue e) = ErrCode e @ '': '' @ Err e"
| "Error (HTTPError contents wrapped msg code) =
     ''contents=['' @ spaced (map (\<lambda>b. natDigits (of_char b)) contents) @ '']''
     @ '' msg='' @ msg @ '' code='' @ Itoa code
     @ '' wrapped='' @ (case wrapped of None \<Rightarrow> [] | Some e \<Rightarrow> Error e)"

subsection \<open>Filter creation and the long poll\<close>

text \<open>
  \<^verbatim>\<open>CreateFilter\<close> and \<^verbatim>\<open>SyncRequest\<close> pass the address of a nil pointer as
  the result object: \<open>Some None\<close>. What comes back is the pointer as
  \<^verbatim>\<open>MakeRequest\<close> left it (\<open>None\<close>: still nil).
\<close>

definition theResult :: "'r option option \<Rightarrow> 'r option" where
  "theResult resBody = (case resBody of None \<Rightarrow> None | Some r \<Rightarrow> r)"

definition CreateFilter ::
  "nat \<Rightarrow> (string, 'w) env \<Rightarrow> client \<Rightarrow> string \<Rightarrow> 'w state \<Rightarrow>
   error option outcome \<times> RespCreateFilter option \<times> 'w state" where
  "CreateFilter n env cli filter' st =
     (let urlPath' = BuildURL cli [''user'', UserID cli, ''filter''];
          (out, resBody, st1) =
             MakeRequest n env cli (decodeRespCreateFilter env) ''POST'' urlPath' (Some filter')
               (Some None) st
      in (out, theResult resBody, st1))"

definition syncQuery :: "int \<Rightarrow> string \<Rightarrow> string \<Rightarrow> bool \<Rightarrow> string \<Rightarrow> (string \<times> string) list" where
  "syncQuery timeout since filterID fullState setPresence =
     [(''timeout'', Itoa timeout)]
     @ (if filterID \<noteq> [] then [(''filter'', filterID)] else [])
     @ (if fullState then [(''full_state'', ''true'')] else [])
     @ (if setPresence \<noteq> [] then [(''set_presence'', setPresence)] else [])
     @ (if since \<noteq> [] then [(''since'', since)] else [])"

definition SyncRequest ::
  "nat \<Rightarrow> (string, 'w) env \<Rightarrow> client \<Rightarrow> int \<Rightarrow> string \<Rightarrow> string \<Rightarrow> bool \<Rightarrow> string \<Rightarrow> 'w state \<Rightarrow>
   error option outcome \<times> RespSync option \<times> 'w state" where
  "SyncRequest n env cli timeout since filterID fullState setPresence st =
     (let query = syncQuery timeout since filterID fullState setPresence;
          urlPath' = BuildURLWithQuery cli [''sync''] query;
          (out, resBody, st1) =
             MakeRequest n env cli (decodeRespSync env) ''GET'' urlPath' None (Some None) st
      in (out, theResult resBody, st1))"

subsection \<open>The session controller\<close>

text \<open>
  \<^verbatim>\<open>syncingID\<close> is shared with other goroutines, which change it only through
  \<^verbatim>\<open>incrementSyncingID\<close> (by \<^verbatim>\<open>StopSync\<close> or another \<^verbatim>\<open>Sync\<close>) under the same mutex.
  Each time this goroutine takes the mutex, the world tells how many such increments
  took place since it last looked.
\<close>

definition settle :: "('q, 'w) env \<Rightarrow> 'w state \<Rightarrow> 'w state" where
  "settle env st =
     (let (k, w) = otherIncrements env (world st)
      in st\<lparr>syncingID := syncingID st + of_nat k, world := w\<rparr>)"

definition incrementSyncingID :: "('q, 'w) env \<Rightarrow> 'w state \<Rightarrow> 32 word \<times> 'w state" where
  "incrementSyncingID env st =
     (let st1 = settle env st; st2 = st1\<lparr>syncingID := syncingID st1 + 1\<rparr>
      in (syncingID st2, st2))"

definition getSyncingID :: "('q, 'w) env \<Rightarrow> 'w state \<Rightarrow> 32 word \<times> 'w state" where
  "getSyncingID env st = (let st1 = settle env st in (syncingID st1, st1))"

definition StopSync :: "('q, 'w) env \<Rightarrow> 'w state \<Rightarrow> 'w state" where
  "StopSync env st = snd (incrementSyncingID env st)"

text \<open>
  The \<^verbatim>\<open>for\<close> loop of \<^verbatim>\<open>Sync\<close>, with the values of the local variables
  \<^verbatim>\<open>syncingID\<close>, \<^verbatim>\<open>nextBatch\<close> and \<^verbatim>\<open>filterID\<close> at its head. Reading
  \<^verbatim>\<open>resSync.NextBatch\<close> through a nil pointer panics.

  \<^verbatim>\<open>ProcessResponse\<close> is handed the pointer \<^verbatim>\<open>resSync\<close> and may write to the snapshot:
  \<open>syncerProcessResponse\<close> returns, with its error, the snapshot as the call left it.
  The last statement of the loop body reads \<^verbatim>\<open>resSync.NextBatch\<close> once more, after the
  call, so the loop goes on with the cursor of that snapshot, while the cursor that was
  saved is the one read before the call.
\<close>

fun syncLoop ::
  "nat \<Rightarrow> (string, 'w) env \<Rightarrow> client \<Rightarrow> 32 word \<Rightarrow> string \<Rightarrow> string \<Rightarrow> 'w state \<Rightarrow>
   error option outcome \<times> 'w state" where
  "syncLoop 0 env cli sid nextBatch filterID st = (OutOfFuel, st)"
| "syncLoop (Suc n) env cli sid nextBatch filterID st =
     (case SyncRequest n env cli 30000 nextBatch filterID False []
             (log (CallSyncRequest 30000 nextBatch filterID False []) st) of
        (Returned (Some err), resSync, st1) \<Rightarrow>
          (let ((dur, err2), w2) = syncerOnFailedSync env resSync err (world st1);
               st2 = log (SyncerOnFailedSync resSync err) (st1\<lparr>world := w2\<rparr>)
           in case err2 of
                Some e2 \<Rightarrow> (Returned (Some e2), st2)
              | None \<Rightarrow> syncLoop n env cli sid nextBatch filterID (log (Sleep dur) st2))
      | (Returned None, resSync, st1) \<Rightarrow>
          (let (cur, st2) = getSyncingID env st1
           in if cur \<noteq> sid then (Returned None, st2)
              else (case resSync of
                      None \<Rightarrow> (Panic, st2)
                    | Some rs \<Rightarrow>
                        (let st3 = log (StoreSaveNextBatch (UserID cli) (NextBatch rs))
                                     (st2\<lparr>world := storeSaveNextBatch env (UserID cli) (NextBatch rs) (world st2)\<rparr>);
                             ((perr, rs'), w4) = syncerProcessResponse env rs nextBatch (world st3);
                             st4 = log (SyncerProcessResponse rs nextBatch) (st3\<lparr>world := w4\<rparr>)
                         in case perr of
                              Some e \<Rightarrow> (Returned (Some e), st4)
                            | None \<Rightarrow> syncLoop n env cli sid (NextBatch rs') filterID st4)))
      | (other, resSync, st1) \<Rightarrow> (other, st1))"

text \<open>
  The first three statements of \<^verbatim>\<open>Sync\<close>: take a new \<^verbatim>\<open>syncingID\<close>, load the
  cursor and the filter id of the user from the store.
\<close>

definition syncPrologue ::
  "(string, 'w) env \<Rightarrow> client \<Rightarrow> 'w state \<Rightarrow> 32 word \<times> string \<times> string \<times> 'w state" where
  "syncPrologue env cli st =
     (let (sid, st1) = incrementSyncingID env st;
          (nextBatch, w2) = storeLoadNextBatch env (UserID cli) (world st1);
          st2 = log (StoreLoadNextBatch (UserID cli)) (st1\<lparr>world := w2\<rparr>);
          (filterID, w3) = storeLoadFilterID env (UserID cli) (world st2);
          st3 = log (StoreLoadFilterID (UserID cli)) (st2\<lparr>world := w3\<rparr>)
      in (sid, nextBatch, filterID, st3))"

text \<open>
  \<^verbatim>\<open>Sync\<close>: after these, the filter is created when the store has none, then the loop
  runs. Reading \<^verbatim>\<open>resFilter.FilterID\<close> through a nil pointer panics.
\<close>

definition Sync ::
  "nat \<Rightarrow> (string, 'w) env \<Rightarrow> client \<Rightarrow> 'w state \<Rightarrow> error option outcome \<times> 'w state" where
  "Sync n env cli st =
     (let (sid, nextBatch, filterID, st3) = syncPrologue env cli st
      in if filterID = [] then
           (let (filterJSON, w4) = syncerGetFilterJSON env (UserID cli) (world st3);
                st4 = log (SyncerGetFilterJSON (UserID cli)) (st3\<lparr>world := w4\<rparr>)
            in case CreateFilter n env cli filterJSON (log (CallCreateFilter filterJSON) st4) of
                 (Returned (Some err), resFilter, st5) \<Rightarrow> (Returned (Some err), st5)
               | (Returned None, resFilter, st5) \<Rightarrow>
                   (case resFilter of
                      None \<Rightarrow> (Panic, st5)
                    | Some rf \<Rightarrow>
                        syncLoop n env cli sid nextBatch (FilterID rf)
                          (log (StoreSaveFilterID (UserID cli) (FilterID rf))
                             (st5\<lparr>world := storeSaveFilterID env (UserID cli) (FilterID rf) (world st5)\<rparr>)))
               | (other, resFilter, st5) \<Rightarrow> (other, st5))
         else syncLoop n env cli sid nextBatch filterID st3)"

subsection \<open>Properties of traces\<close>

text \<open>Traces are read newest event first. The events of the transport:\<close>

fun isTransport :: "event \<Rightarrow> bool" where
  "isTransport (HttpDo req) = True"
| "isTransport (Sleep d) = True"
| "isTransport e = False"

text \<open>
  The events that a call of \<^verbatim>\<open>MakeRequest\<close> with the given arguments can add: a sleep,
  or the sending of the request that these arguments make.
\<close>

definition sentBy :: "('q, 'w) env \<Rightarrow> client \<Rightarrow> string \<Rightarrow> url \<Rightarrow> 'q option \<Rightarrow> event \<Rightarrow> bool" where
  "sentBy env cli method httpURL reqBody' e =
     (case e of
        Sleep d \<Rightarrow> True
      | HttpDo req \<Rightarrow> newRequest env cli method httpURL reqBody' = Inr req
      | _ \<Rightarrow> False)"

text \<open>
  The three events that only the loop of \<^verbatim>\<open>Sync\<close> adds, besides those of the transport
  and of the recovery hook.
\<close>

fun isLoopEvent :: "event \<Rightarrow> bool" where
  "isLoopEvent (SyncerProcessResponse rs since) = True"
| "isLoopEvent (StoreSaveNextBatch uid c) = True"
| "isLoopEvent (CallSyncRequest timeout since filterID fullState setPresence) = True"
| "isLoopEvent e = False"

text \<open>
  Every snapshot handed to \<^verbatim>\<open>ProcessResponse\<close> has its cursor saved for the user by the
  event just before.
\<close>

fun persistedBeforeDispatch :: "string \<Rightarrow> event list \<Rightarrow> bool" where
  "persistedBeforeDispatch uid [] = True"
| "persistedBeforeDispatch uid (SyncerProcessResponse rs since # tr) =
     ((case tr of
         StoreSaveNextBatch u c # older \<Rightarrow> u = uid \<and> c = NextBatch rs
       | _ \<Rightarrow> False)
      \<and> persistedBeforeDispatch uid tr)"
| "persistedBeforeDispatch uid (e # tr) = persistedBeforeDispatch uid tr"

text \<open>The cursor most recently saved for the user, if any.\<close>

fun lastSaved :: "string \<Rightarrow> event list \<Rightarrow> string option" where
  "lastSaved uid [] = None"
| "lastSaved uid (StoreSaveNextBatch u c # tr) = (if u = uid then Some c else lastSaved uid tr)"
| "lastSaved uid (e # tr) = lastSaved uid tr"

text \<open>
  Every call of \<^verbatim>\<open>SyncRequest\<close> that comes after a cursor was saved for the user passes
  the cursor saved last as \<^verbatim>\<open>since\<close>.
\<close>

fun sinceIsLastSaved :: "string \<Rightarrow> event list \<Rightarrow> bool" where
  "sinceIsLastSaved uid [] = True"
| "sinceIsLastSaved uid (CallSyncRequest timeout since filterID fullState setPresence # tr) =
     ((case lastSaved uid tr of None \<Rightarrow> True | Some c \<Rightarrow> since = c) \<and> sinceIsLastSaved uid tr)"
| "sinceIsLastSaved uid (e # tr) = sinceIsLastSaved uid tr"

text \<open>
  No filter is asked for, created or saved, every long poll is called with the filter id
  \<open>fid\<close>, and every HTTP request is a \<^verbatim>\<open>GET\<close> whose query names that filter.
\<close>

fun usesFilter :: "string \<Rightarrow> event \<Rightarrow> bool" where
  "usesFilter fid (SyncerGetFilterJSON uid) = False"
| "usesFilter fid (CallCreateFilter filterJSON) = False"
| "usesFilter fid (StoreSaveFilterID uid v) = False"
| "usesFilter fid (CallSyncRequest timeout since filterID fullState setPresence) = (filterID = fid)"
| "usesFilter fid (HttpDo req) =
     (reqMethod req = ''GET'' \<and> map_of (urlQuery (reqURL req)) ''filter'' = Some fid)"
| "usesFilter fid e = True"

text \<open>No long poll: no call of \<^verbatim>\<open>SyncRequest\<close> and no HTTP request but a \<^verbatim>\<open>POST\<close>.\<close>

fun noLongPoll :: "event \<Rightarrow> bool" where
  "noLongPoll (CallSyncRequest timeout since filterID fullState setPresence) = False"
| "noLongPoll (HttpDo req) = (reqMethod req = ''POST'')"
| "noLongPoll e = True"

subsection \<open>A scripted environment\<close>

text \<open>
  A small world on which the functions above can be run. The HTTP server answers from a
  script, and with a fixed answer once the script is used up. Other goroutines increment
  \<^verbatim>\<open>syncingID\<close> as a second script says. The syncer hands out the filter document
  \<open>{}\<close>, asks for a wait of ten seconds on every failed sync, refuses the snapshots
  whose cursor is listed in \<open>rejected\<close> and leaves every snapshot as it is.

  Modelled from the spec: the store. The repository's in-memory store is not among the
  sources read here; as the spec has it, a store keeps the cursor and the filter id of each
  user, and the empty string stands for a value it does not have.

  Bodies are written \<open>key=value\<close> and stand for a JSON object with that one field;
  \<open>{}\<close> is the empty object, \<open>null\<close> is the JSON null and any other body without
  \<open>=\<close> is no JSON. The decoders follow \<^verbatim>\<open>encoding/json\<close> on a pointer to a pointer
  to a struct: null sets the pointer to nil, for an object a nil pointer gets a new zero
  value, and a field that the body does not name keeps the content it has.
\<close>

record demoWorld =
  httpScript :: "(error + response) list"
  httpDefault :: "error + response"
  incrScript :: "nat list"
  nextBatches :: "(string \<times> string) list"
  filterIDs :: "(string \<times> string) list"
  rejected :: "string list"
  clock :: int

definition demoField :: "string \<Rightarrow> string \<Rightarrow> string option" where
  "demoField key b =
     (if take (length key + 1) b = key @ ''='' then Some (drop (length key + 1) b) else None)"

definition demoIsObject :: "string \<Rightarrow> bool" where
  "demoIsObject b = (b = ''{}'' \<or> CHR ''='' \<in> set b)"

definition demoDecodeSync :: "string \<Rightarrow> RespSync option \<Rightarrow> error option \<times> RespSync option" where
  "demoDecodeSync b r =
     (let cur = (case r of None \<Rightarrow> \<lparr>NextBatch = [], Payload = []\<rparr> | Some x \<Rightarrow> x)
      in if b = ''null'' then (None, None)
         else if \<not> demoIsObject b then (Some (ErrorString ''invalid character''), r)
         else (case demoField ''next_batch'' b of
                 Some v \<Rightarrow> (None, Some (cur\<lparr>NextBatch := v\<rparr>))
               | None \<Rightarrow> (None, Some cur)))"

definition demoDecodeFilter ::
  "string \<Rightarrow> RespCreateFilter option \<Rightarrow> error option \<times> RespCreateFilter option" where
  "demoDecodeFilter b r =
     (let cur = (case r of None \<Rightarrow> \<lparr>FilterID = []\<rparr> | Some x \<Rightarrow> x)
      in if b = ''null'' then (None, None)
         else if \<not> demoIsObject b then (Some (ErrorString ''invalid character''), r)
         else (case demoField ''filter_id'' b of
                 Some v \<Rightarrow> (None, Some (cur\<lparr>FilterID := v\<rparr>))
               | None \<Rightarrow> (None, Some cur)))"

definition demoLookup :: "(string \<times> string) list \<Rightarrow> string \<Rightarrow> string" where
  "demoLookup m k = (case map_of m k of None \<Rightarrow> [] | Some v \<Rightarrow> v)"

definition demoEnv :: "(string, demoWorld) env" where
  "demoEnv =
     \<lparr> jsonEncode = (\<lambda>b. Inr b),
       newRequestError = (\<lambda>method u. None),
       clientDo = (\<lambda>req w. case httpScript w of
                              [] \<Rightarrow> (httpDefault w, w)
                            | r # rs \<Rightarrow> (r, w\<lparr>httpScript := rs\<rparr>)),
       unmarshalRespError = (\<lambda>b. case demoField ''errcode'' b of
                                    Some v \<Rightarrow> \<lparr>ErrCode = v, Err = []\<rparr>
                                  | None \<Rightarrow> \<lparr>ErrCode = [], Err = []\<rparr>),
       urlPath = (\<lambda>u. concat (map (\<lambda>e. CHR ''/'' # e) (urlElems u))),
       parseHTTPTime = (\<lambda>s. if s = ''Thu, 01 Jan 1970 00:01:00 GMT'' then Some 60 else None),
       timeUntil = (\<lambda>t w. (word_of_int (t - clock w) * Second, w)),
       decodeRespSync = demoDecodeSync,
       decodeRespCreateFilter = demoDecodeFilter,
       storeLoadNextBatch = (\<lambda>u w. (demoLookup (nextBatches w) u, w)),
       storeLoadFilterID = (\<lambda>u w. (demoLookup (filterIDs w) u, w)),
       storeSaveFilterID = (\<lambda>u v w. w\<lparr>filterIDs := AList.update u v (filterIDs w)\<rparr>),
       storeSaveNextBatch = (\<lambda>u v w. w\<lparr>nextBatches := AList.update u v (nextBatches w)\<rparr>),
       syncerGetFilterJSON = (\<lambda>u w. (''{}'', w)),
       syncerOnFailedSync = (\<lambda>r e w. ((10 * Second, None), w)),
       syncerProcessResponse =
         (\<lambda>r since w. ((if NextBatch r \<in> set (rejected w)
                         then Some (ErrorString ''malformed snapshot'') else None, r), w)),
       otherIncrements = (\<lambda>w. case incrScript w of
                                [] \<Rightarrow> (0, w)
                              | k # ks \<Rightarrow> (k, w\<lparr>incrScript := ks\<rparr>)) \<rparr>"

text \<open>
  The same environment with another syncer: before it returns, \<^verbatim>\<open>ProcessResponse\<close>
  sets the field \<^verbatim>\<open>NextBatch\<close> of the snapshot it was handed to \<open>x\<close>, and accepts every
  snapshot.
\<close>

definition demoRewriting :: "(string, demoWorld) env" where
  "demoRewriting =
     demoEnv\<lparr>syncerProcessResponse := (\<lambda>r since w. ((None, r\<lparr>NextBatch := ''x''\<rparr>), w))\<rparr>"

definition demoClient :: client where
  "demoClient =
     \<lparr> HomeserverURL = ''https://hs'', Prefix = ''/_matrix/client/v3'', UserID = ''@u:hs'',
       AccessToken = ''tok'', AppServiceUserID = [] \<rparr>"

definition demoResponse :: "int \<Rightarrow> (string \<times> string list) list \<Rightarrow> string \<Rightarrow> error + response" where
  "demoResponse code hdr body = Inr \<lparr>StatusCode = code, Header = hdr, Body = Inr body\<rparr>"

text \<open>The answer of a server that limits the rate, without a \<^verbatim>\<open>Retry-After\<close> header.\<close>

definition demo429 :: "error + response" where
  "demo429 = demoResponse 429 [] ''errcode=M_LIMIT_EXCEEDED''"

definition demoWorld0 :: demoWorld where
  "demoWorld0 =
     \<lparr> httpScript = [], httpDefault = Inl (ErrorString ''connection refused''),
       incrScript = [], nextBatches = [], filterIDs = [], rejected = [], clock = 0 \<rparr>"

text \<open>A store that already holds the filter id \<open>f1\<close> of the user.\<close>

definition demoStored :: demoWorld where
  "demoStored = demoWorld0\<lparr>filterIDs := [(''@u:hs'', ''f1'')]\<rparr>"

definition demoState :: "demoWorld \<Rightarrow> demoWorld state" where
  "demoState w = \<lparr>syncingID = 0, world = w, trace = []\<rparr>"

subsection \<open>A store and a syncer that keep a journal\<close>

text \<open>
  An environment whose store and syncer write down the calls they receive. The world gets
  a second component, the journal: every method of \<^verbatim>\<open>Storer\<close> and of \<^verbatim>\<open>Syncer\<close> adds
  the call it has just served, newest first. The journal is kept by the collaborators, not
  by the client: it holds the calls in the order in which they were made. Everything else
  is as in the environment given.
\<close>

definition journalled :: "('q, 'w) env \<Rightarrow> ('q, 'w \<times> event list) env" where
  "journalled env =
     \<lparr> jsonEncode = jsonEncode env,
       newRequestError = newRequestError env,
       clientDo = (\<lambda>req (w, j). let (r, w') = clientDo env req w in (r, (w', j))),
       unmarshalRespError = unmarshalRespError env,
       urlPath = urlPath env,
       parseHTTPTime = parseHTTPTime env,
       timeUntil = (\<lambda>t (w, j). let (d, w') = timeUntil env t w in (d, (w', j))),
       decodeRespSync = decodeRespSync env,
       decodeRespCreateFilter = decodeRespCreateFilter env,
       storeLoadNextBatch =
         (\<lambda>u (w, j). let (v, w') = storeLoadNextBatch env u w in (v, (w', StoreLoadNextBatch u # j))),
       storeLoadFilterID =
         (\<lambda>u (w, j). let (v, w') = storeLoadFilterID env u w in (v, (w', StoreLoadFilterID u # j))),
       storeSaveFilterID = (\<lambda>u v (w, j). (storeSaveFilterID env u v w, StoreSaveFilterID u v # j)),
       storeSaveNextBatch = (\<lambda>u v (w, j). (storeSaveNextBatch env u v w, StoreSaveNextBatch u v # j)),
       syncerGetFilterJSON =
         (\<lambda>u (w, j). let (v, w') = syncerGetFilterJSON env u w in (v, (w', SyncerGetFilterJSON u # j))),
       syncerOnFailedSync =
         (\<lambda>r e (w, j). let (x, w') = syncerOnFailedSync env r e w
                      in (x, (w', SyncerOnFailedSync r e # j))),
       syncerProcessResponse =
         (\<lambda>rs since (w, j). let (x, w') = syncerProcessResponse env rs since w
                          in (x, (w', SyncerProcessResponse rs since # j))),
       otherIncrements = (\<lambda>(w, j). let (k, w') = otherIncrements env w in (k, (w', j))) \<rparr>"

section \<open>Properties of the transport\<close>

subsection \<open>The branches of \<^verbatim>\<open>MakeRequest\<close>\<close>

lemma MakeRequest_prepare_fails:
  "newRequest env cli method httpURL reqBody' = Inl e \<Longrightarrow>
   MakeRequest (Suc n) env cli dec method httpURL reqBody' resBody st = (Returned (Some e), resBody, st)"
  by simp

lemma MakeRequest_do_fails:
  "newRequest env cli method httpURL reqBody' = Inr req \<Longrightarrow>
   clientDo env req (world st) = (Inl e, w1) \<Longrightarrow>
   MakeRequest (Suc n) env cli dec method httpURL reqBody' resBody st =
     (Returned (Some e), resBody, log (HttpDo req) (st\<lparr>world := w1\<rparr>))"
  by simp

lemma MakeRequest_retry_refused:
  "newRequest env cli method httpURL reqBody' = Inr req \<Longrightarrow>
   clientDo env req (world st) = (Inr res, w1) \<Longrightarrow>
   StatusCode res = 429 \<Longrightarrow>
   HandleRetry env res 5000000000 w1 = ((dur, Some e), w2) \<Longrightarrow>
   MakeRequest (Suc n) env cli dec method httpURL reqBody' resBody st =
     (Returned (Some e), resBody, log (HttpDo req) (st\<lparr>world := w2\<rparr>))"
  by (simp add: log_def)

lemma MakeRequest_retry:
  "newRequest env cli method httpURL reqBody' = Inr req \<Longrightarrow>
   clientDo env req (world st) = (Inr res, w1) \<Longrightarrow>
   StatusCode res = 429 \<Longrightarrow>
   HandleRetry env res 5000000000 w1 = ((dur, None), w2) \<Longrightarrow>
   MakeRequest (Suc n) env cli dec method httpURL reqBody' resBody st =
     (case MakeRequest n env cli dec method httpURL reqBody' resBody
             (log (Sleep dur) (log (HttpDo req) (st\<lparr>world := w2\<rparr>))) of
        (Returned x, resBody1, st3) \<Rightarrow>
          (Returned (fst (decodeBody dec res resBody1)), snd (decodeBody dec res resBody1), st3)
      | (other, resBody1, st3) \<Rightarrow> (other, resBody1, st3))"
  by (simp add: log_def split: prod.splits outcome.splits)

lemma MakeRequest_not2xx:
  "newRequest env cli method httpURL reqBody' = Inr req \<Longrightarrow>
   clientDo env req (world st) = (Inr res, w1) \<Longrightarrow>
   StatusCode res \<noteq> 429 \<Longrightarrow> StatusCode res div 100 \<noteq> 2 \<Longrightarrow>
   MakeRequest (Suc n) env cli dec method httpURL reqBody' resBody st =
     (case Body res of
        Inl e \<Rightarrow> (Returned (Some e), resBody, log (HttpDo req) (st\<lparr>world := w1\<rparr>))
      | Inr contents \<Rightarrow>
          (Returned (Some (httpError env method req res contents)), resBody,
           log (HttpDo req) (st\<lparr>world := w1\<rparr>)))"
  by (simp add: Let_def)

lemma MakeRequest_2xx:
  assumes "newRequest env cli method httpURL reqBody' = Inr req"
    and "clientDo env req (world st) = (Inr res, w1)"
    and "StatusCode res div 100 = 2"
  shows "MakeRequest (Suc n) env cli dec method httpURL reqBody' resBody st =
     (Returned (fst (decodeBody dec res resBody)), snd (decodeBody dec res resBody),
      log (HttpDo req) (st\<lparr>world := w1\<rparr>))"
proof -
  from assms(3) have "StatusCode res \<noteq> 429" by auto
  with assms show ?thesis by (simp add: Let_def split: prod.splits)
qed

declare MakeRequest.simps(2) [simp del]

subsection \<open>Running the scripted environment\<close>

lemma demoEnv_simps:
  "jsonEncode demoEnv b = Inr b"
  "newRequestError demoEnv method u = None"
  "clientDo demoEnv req w =
     (case httpScript w of [] \<Rightarrow> (httpDefault w, w) | r # rs \<Rightarrow> (r, w\<lparr>httpScript := rs\<rparr>))"
  "unmarshalRespError demoEnv b =
     (case demoField ''errcode'' b of
        Some v \<Rightarrow> \<lparr>ErrCode = v, Err = []\<rparr>
      | None \<Rightarrow> \<lparr>ErrCode = [], Err = []\<rparr>)"
  "urlPath demoEnv u = concat (map (\<lambda>e. CHR ''/'' # e) (urlElems u))"
  "parseHTTPTime demoEnv s = (if s = ''Thu, 01 Jan 1970 00:01:00 GMT'' then Some 60 else None)"
  "timeUntil demoEnv t w = (word_of_int (t - clock w) * Second, w)"
  "decodeRespSync demoEnv = demoDecodeSync"
  "decodeRespCreateFilter demoEnv = demoDecodeFilter"
  "storeLoadNextBatch demoEnv uid w = (demoLookup (nextBatches w) uid, w)"
  "storeLoadFilterID demoEnv uid w = (demoLookup (filterIDs w) uid, w)"
  "storeSaveFilterID demoEnv uid v w = w\<lparr>filterIDs := AList.update uid v (filterIDs w)\<rparr>"
  "storeSaveNextBatch demoEnv uid v w = w\<lparr>nextBatches := AList.update uid v (nextBatches w)\<rparr>"
  "syncerGetFilterJSON demoEnv uid w = (''{}'', w)"
  "syncerOnFailedSync demoEnv r e w = ((10 * Second, None), w)"
  "syncerProcessResponse demoEnv rs since w =
     ((if NextBatch rs \<in> set (rejected w) then Some (ErrorString ''malformed snapshot'') else None,
       rs), w)"
  "otherIncrements demoEnv w =
     (case incrScript w of [] \<Rightarrow> (0, w) | k # ks \<Rightarrow> (k, w\<lparr>incrScript := ks\<rparr>))"
  by (simp_all add: demoEnv_def)

lemma demoClient_simps:
  "HomeserverURL demoClient = ''https://hs''"
  "Prefix demoClient = ''/_matrix/client/v3''"
  "UserID demoClient = ''@u:hs''"
  "AccessToken demoClient = ''tok''"
  "AppServiceUserID demoClient = []"
  by (simp_all add: demoClient_def)

lemmas demo_defs = demoEnv_simps demoClient_simps demoResponse_def demoWorld0_def demoState_def
  demoDecodeSync_def demoDecodeFilter_def demoField_def demoIsObject_def demoLookup_def

lemma demo_newRequest:
  "newRequest demoEnv demoClient method httpURL None =
     Inr \<lparr>reqMethod = method, reqURL = httpURL,
          reqHeader = [(''Content-Type'', ''application/json''), (''Authorization'', ''Bearer tok'')],
          reqBody = None\<rparr>"
  by (simp add: newRequest_def demoEnv_simps demoClient_simps)

lemma newRequest_url:
  "newRequest env cli method httpURL reqBody' = Inr req \<Longrightarrow> reqURL req = httpURL"
  by (auto simp: newRequest_def split: option.splits sum.splits)


lemmas demo_run = MakeRequest.simps(2) demo_newRequest demo_defs demo429_def Let_def log_def
  HandleRetry_def headerGet_def decodeBody_def httpError_def

subsection \<open>The backoff duration\<close>



subsection \<open>A header that cannot be read\<close>

text \<open>
  Claim C10. When a 429 response carries a non-empty \<^verbatim>\<open>Retry-After\<close> header that
  parses neither as an HTTP date nor as an integer, \<^verbatim>\<open>HandleRetry\<close> returns the error
  \<open>invalid retry-after data\<close> and \<^verbatim>\<open>MakeRequest\<close> returns that error at once: the only
  event it adds to the trace is the one HTTP call, so there is no sleep and no retry.
\<close>

theorem invalid_retry_after_returns_at_once:
  assumes "newRequest env cli method httpURL reqBody' = Inr req"
    and "clientDo env req (world st) = (Inr res, w1)"
    and "StatusCode res = 429"
    and "headerGet (Header res) ''Retry-After'' \<noteq> []"
    and "parseHTTPTime env (headerGet (Header res) ''Retry-After'') = None"
    and "Atoi (headerGet (Header res) ''Retry-After'') = None"
  shows "HandleRetry env res dur w1 = ((dur, Some (ErrorString ''invalid retry-after data'')), w1)
       \<and> MakeRequest (Suc n) env cli dec method httpURL reqBody' resBody st =
           (Returned (Some (ErrorString ''invalid retry-after data'')), resBody,
            st\<lparr>world := w1, trace := HttpDo req # trace st\<rparr>)"
proof -
  have h: "HandleRetry env res d w1 = ((d, Some (ErrorString ''invalid retry-after data'')), w1)" for d
    using assms(4-6) by (simp add: HandleRetry_def Let_def)
  from MakeRequest_retry_refused [OF assms(1-3) h]
  have "MakeRequest (Suc n) env cli dec method httpURL reqBody' resBody st =
          (Returned (Some (ErrorString ''invalid retry-after data'')), resBody,
           log (HttpDo req) (st\<lparr>world := w1\<rparr>))" .
  with h show ?thesis by (simp add: log_def)
qed

theorem invalid_retry_after_witness:
  "MakeRequest (Suc 0) demoEnv demoClient demoDecodeSync ''GET'' (BuildURL demoClient [''sync''])
     None (Some None)
     (demoState (demoWorld0\<lparr>httpScript :=
        [demoResponse 429 [(''Retry-After'', [''soon''])] ''errcode=M_LIMIT_EXCEEDED'']\<rparr>)) =
   (Returned (Some (ErrorString ''invalid retry-after data'')), Some None,
    \<lparr>syncingID = 0, world = demoWorld0,
     trace = [HttpDo \<lparr>reqMethod = ''GET'', reqURL = BuildURL demoClient [''sync''],
                      reqHeader = [(''Content-Type'', ''application/json''),
                                   (''Authorization'', ''Bearer tok'')],
                      reqBody = None\<rparr>]\<rparr>)"
  using invalid_retry_after_returns_at_once
    [of demoEnv demoClient "''GET''" "BuildURL demoClient [''sync'']" "None :: string option"
        "\<lparr>reqMethod = ''GET'', reqURL = BuildURL demoClient [''sync''],
          reqHeader = [(''Content-Type'', ''application/json''), (''Authorization'', ''Bearer tok'')],
          reqBody = None\<rparr>"
        "demoState (demoWorld0\<lparr>httpScript :=
           [demoResponse 429 [(''Retry-After'', [''soon''])] ''errcode=M_LIMIT_EXCEEDED'']\<rparr>)"
        "\<lparr>StatusCode = 429, Header = [(''Retry-After'', [''soon''])],
          Body = Inr ''errcode=M_LIMIT_EXCEEDED''\<rparr>"
        demoWorld0 5000000000 0 demoDecodeSync "Some None"]
  by (simp add: demo_defs newRequest_def headerGet_def Atoi_def digitVal_def)

subsection \<open>Responses that are neither 429 nor 2xx\<close>

text \<open>
  Claim C6, as the code has it. For every response that is neither 429 nor 2xx
  \<^bold>\<open>and whose body can be read to its end\<close>, \<^verbatim>\<open>MakeRequest\<close> returns an
  \<^verbatim>\<open>HTTPError\<close> with the status code and the bytes of the body. When unmarshalling the
  body as a \<^verbatim>\<open>RespError\<close> leaves a non-empty \<^verbatim>\<open>ErrCode\<close>, that \<^verbatim>\<open>RespError\<close> is the
  wrapped error and the message is \<open>Failed to <method> JSON to <path>\<close>; otherwise nothing
  is wrapped and the text of the body is appended to the message after a colon.
\<close>

theorem http_error_carries_response:
  assumes "newRequest env cli method httpURL reqBody' = Inr req"
    and "clientDo env req (world st) = (Inr res, w1)"
    and "StatusCode res \<noteq> 429"
    and "StatusCode res div 100 \<noteq> 2"
    and "Body res = Inr contents"
  shows "\<exists>wrap msg.
           MakeRequest (Suc n) env cli dec method httpURL reqBody' resBody st =
             (Returned (Some (HTTPError contents wrap msg (StatusCode res))), resBody,
              log (HttpDo req) (st\<lparr>world := w1\<rparr>))
         \<and> (ErrCode (unmarshalRespError env contents) \<noteq> [] \<longrightarrow>
              wrap = Some (RespErrorValue (unmarshalRespError env contents)) \<and>
              msg = ''Failed to '' @ method @ '' JSON to '' @ urlPath env httpURL)
         \<and> (ErrCode (unmarshalRespError env contents) = [] \<longrightarrow>
              wrap = None \<and>
              msg = ''Failed to '' @ method @ '' JSON to '' @ urlPath env httpURL @ '': '' @ contents)"
proof -
  have url: "reqURL req = httpURL"
    using assms(1) by (rule newRequest_url)
  have "MakeRequest (Suc n) env cli dec method httpURL reqBody' resBody st =
          (Returned (Some (httpError env method req res contents)), resBody,
           log (HttpDo req) (st\<lparr>world := w1\<rparr>))"
    using MakeRequest_not2xx [OF assms(1-4)] assms(5) by simp
  then show ?thesis
    using url by (cases "ErrCode (unmarshalRespError env contents) = []")
      (simp_all add: httpError_def Let_def)
qed

text \<open>
  A 403 whose body carries an error code, and a 502 from a proxy whose body is HTML.
\<close>

theorem http_error_witness:
  "MakeRequest (Suc 0) demoEnv demoClient demoDecodeSync ''GET'' (BuildURL demoClient [''sync''])
     None (Some None)
     (demoState (demoWorld0\<lparr>httpScript := [demoResponse 403 [] ''errcode=M_FORBIDDEN'']\<rparr>)) =
   (Returned (Some (HTTPError ''errcode=M_FORBIDDEN''
       (Some (RespErrorValue \<lparr>ErrCode = ''M_FORBIDDEN'', Err = []\<rparr>))
       ''Failed to GET JSON to //_matrix/client/v3/sync'' 403)), Some None,
    \<lparr>syncingID = 0, world = demoWorld0,
     trace = [HttpDo \<lparr>reqMethod = ''GET'', reqURL = BuildURL demoClient [''sync''],
                      reqHeader = [(''Content-Type'', ''application/json''),
                                   (''Authorization'', ''Bearer tok'')],
                      reqBody = None\<rparr>]\<rparr>)
   \<and> fst (MakeRequest (Suc 0) demoEnv demoClient demoDecodeSync ''GET'' (BuildURL demoClient [''sync''])
     None (Some None)
     (demoState (demoWorld0\<lparr>httpScript := [demoResponse 502 [] ''<html>Bad Gateway</html>'']\<rparr>))) =
   Returned (Some (HTTPError ''<html>Bad Gateway</html>'' None
       ''Failed to GET JSON to //_matrix/client/v3/sync: <html>Bad Gateway</html>'' 502))"
proof -
  let ?url = "BuildURL demoClient [''sync'']"
  let ?req = "\<lparr>reqMethod = ''GET'', reqURL = ?url,
          reqHeader = [(''Content-Type'', ''application/json''), (''Authorization'', ''Bearer tok'')],
          reqBody = None\<rparr>"
  let ?res1 = "\<lparr>StatusCode = 403, Header = [], Body = Inr ''errcode=M_FORBIDDEN''\<rparr>"
  let ?res2 = "\<lparr>StatusCode = 502, Header = [], Body = Inr ''<html>Bad Gateway</html>''\<rparr>"
  let ?st1 = "demoState (demoWorld0\<lparr>httpScript := [demoResponse 403 [] ''errcode=M_FORBIDDEN'']\<rparr>)"
  let ?st2 = "demoState (demoWorld0\<lparr>httpScript := [demoResponse 502 [] ''<html>Bad Gateway</html>'']\<rparr>)"
  have do1: "clientDo demoEnv ?req (world ?st1) = (Inr ?res1, demoWorld0)"
    by (simp add: demo_defs)
  have do2: "clientDo demoEnv ?req (world ?st2) = (Inr ?res2, demoWorld0)"
    by (simp add: demo_defs)
  have path: "urlPath demoEnv ?url = ''//_matrix/client/v3/sync''"
    by (simp add: demoEnv_simps demoClient_simps BuildURL_def BuildBaseURL_def)
  have code: "unmarshalRespError demoEnv ''errcode=M_FORBIDDEN'' = \<lparr>ErrCode = ''M_FORBIDDEN'', Err = []\<rparr>"
    "ErrCode (unmarshalRespError demoEnv ''<html>Bad Gateway</html>'') = []"
    by (simp_all add: demoEnv_simps demoField_def)
  have a: "MakeRequest (Suc 0) demoEnv demoClient demoDecodeSync ''GET'' ?url None (Some None) ?st1 =
      (Returned (Some (HTTPError ''errcode=M_FORBIDDEN''
         (Some (RespErrorValue \<lparr>ErrCode = ''M_FORBIDDEN'', Err = []\<rparr>))
         ''Failed to GET JSON to //_matrix/client/v3/sync'' 403)), Some None,
       \<lparr>syncingID = 0, world = demoWorld0, trace = [HttpDo ?req]\<rparr>)"
    using http_error_carries_response
      [OF demo_newRequest do1, of "''errcode=M_FORBIDDEN''" 0 demoDecodeSync "Some None"]
    by (auto simp add: path code log_def demoState_def)
  have b: "fst (MakeRequest (Suc 0) demoEnv demoClient demoDecodeSync ''GET'' ?url None (Some None) ?st2) =
      Returned (Some (HTTPError ''<html>Bad Gateway</html>'' None
         ''Failed to GET JSON to //_matrix/client/v3/sync: <html>Bad Gateway</html>'' 502))"
    using http_error_carries_response
      [OF demo_newRequest do2, of "''<html>Bad Gateway</html>''" 0 demoDecodeSync "Some None"]
    by (auto simp add: path code)
  from a b show ?thesis by simp
qed

text \<open>The text that \<^verbatim>\<open>Error\<close> gives for such a value shows the message with the body.\<close>

lemma Error_of_bad_gateway:
  "Error (HTTPError ''<html>'' None ''Failed to GET JSON to /sync: <html>'' 502) =
     ''contents=[60 104 116 109 108 62] msg=Failed to GET JSON to /sync: <html> code=502 wrapped=''"
  by (simp add: Itoa_def natDigits.simps)

text \<open>
  The claim as stated, for \<^emph>\<open>every\<close> such response, fails when the body cannot be
  read: \<^verbatim>\<open>ioutil.ReadAll\<close> returns an error and \<^verbatim>\<open>MakeRequest\<close> returns that error, which
  is no \<^verbatim>\<open>HTTPError\<close> and carries neither the status code nor any bytes.
\<close>

theorem http_error_counterexample:
  "fst (MakeRequest (Suc 0) demoEnv demoClient demoDecodeSync ''GET'' (BuildURL demoClient [''sync''])
     None (Some None)
     (demoState (demoWorld0\<lparr>httpScript :=
        [Inr \<lparr>StatusCode = 500, Header = [], Body = Inl (ErrorString ''unexpected EOF'')\<rparr>]\<rparr>))) =
   Returned (Some (ErrorString ''unexpected EOF''))"
  by (simp add: MakeRequest_not2xx [OF demo_newRequest] demo_defs)


subsection \<open>The retry after a 429\<close>






subsection \<open>What the caller gets after a retry\<close>





section \<open>Properties of the session controller\<close>

subsection \<open>What the transport adds to the trace\<close>

lemma MakeRequest_retry_state:
  assumes "newRequest env cli method httpURL reqBody' = Inr req"
    and "clientDo env req (world st) = (Inr res, w1)"
    and "StatusCode res = 429"
    and "HandleRetry env res 5000000000 w1 = ((dur, None), w2)"
  shows "snd (snd (MakeRequest (Suc n) env cli dec method httpURL reqBody' resBody st)) =
         snd (snd (MakeRequest n env cli dec method httpURL reqBody' resBody
                       (log (Sleep dur) (log (HttpDo req) (st\<lparr>world := w2\<rparr>)))))"
proof -
  let ?inner = "MakeRequest n env cli dec method httpURL reqBody' resBody
                  (log (Sleep dur) (log (HttpDo req) (st\<lparr>world := w2\<rparr>)))"
  obtain out rb st3 where inner: "?inner = (out, rb, st3)"
    by (cases ?inner)
  show ?thesis
    using MakeRequest_retry [OF assms, of n dec resBody] inner
    by (cases out) simp_all
qed

lemma MakeRequest_events:
  "\<exists>tr. trace (snd (snd (MakeRequest n env cli dec method httpURL reqBody' resBody st))) = tr @ trace st
        \<and> list_all (sentBy env cli method httpURL reqBody') tr"
proof (induction n arbitrary: st)
  case 0
  show ?case by simp
next
  case (Suc n)
  let ?P = "\<lambda>s. \<exists>tr. trace s = tr @ trace st \<and> list_all (sentBy env cli method httpURL reqBody') tr"
  let ?out = "MakeRequest (Suc n) env cli dec method httpURL reqBody' resBody st"
  show ?case
  proof (cases "newRequest env cli method httpURL reqBody'")
    case (Inl e)
    then show ?thesis by (simp add: MakeRequest_prepare_fails)
  next
    case (Inr req)
    have one: "?P (log (HttpDo req) (st\<lparr>world := w\<rparr>))" for w
      using Inr by (simp add: log_def sentBy_def)
    obtain r w1 where do: "clientDo env req (world st) = (r, w1)"
      by (cases "clientDo env req (world st)")
    show ?thesis
    proof (cases r)
      case (Inl e)
      with Inr do one show ?thesis by (simp add: MakeRequest_do_fails)
    next
      case res: (Inr res)
      consider (retry) "StatusCode res = 429"
        | (fail) "StatusCode res \<noteq> 429" "StatusCode res div 100 \<noteq> 2"
        | (ok) "StatusCode res div 100 = 2"
        by blast
      then show ?thesis
      proof cases
        case retry
        obtain dur err w2 where hr: "HandleRetry env res 5000000000 w1 = ((dur, err), w2)"
          by (cases "HandleRetry env res 5000000000 w1") auto
        show ?thesis
        proof (cases err)
          case (Some e)
          with Inr do res retry hr one show ?thesis
            by (simp add: MakeRequest_retry_refused)
        next
          case None
          let ?st' = "log (Sleep dur) (log (HttpDo req) (st\<lparr>world := w2\<rparr>))"
          from Suc.IH [of ?st'] obtain tr where
            tr: "trace (snd (snd (MakeRequest n env cli dec method httpURL reqBody' resBody ?st')))
                   = tr @ trace ?st'"
            "list_all (sentBy env cli method httpURL reqBody') tr"
            by blast
          have "snd (snd ?out) =
                snd (snd (MakeRequest n env cli dec method httpURL reqBody' resBody ?st'))"
            using Inr do res retry hr None by (simp add: MakeRequest_retry_state)
          with tr have "trace (snd (snd ?out)) = (tr @ [Sleep dur, HttpDo req]) @ trace st"
            by (simp add: log_def)
          moreover have "list_all (sentBy env cli method httpURL reqBody') (tr @ [Sleep dur, HttpDo req])"
            using tr(2) Inr by (simp add: sentBy_def)
          ultimately show ?thesis by blast
        qed
      next
        case fail
        with Inr do res one show ?thesis
          by (cases "Body res") (simp_all add: MakeRequest_not2xx)
      next
        case ok
        with Inr do res one show ?thesis
          by (simp add: MakeRequest_2xx)
      qed
    qed
  qed
qed


lemma SyncRequest_events:
  "\<exists>tr. trace (snd (snd (SyncRequest n env cli timeout since filterID fullState setPresence st)))
           = tr @ trace st
        \<and> list_all isTransport tr
        \<and> (filterID \<noteq> [] \<longrightarrow> list_all (usesFilter filterID) tr)"
proof -
  let ?url = "BuildURLWithQuery cli [''sync''] (syncQuery timeout since filterID fullState setPresence)"
  obtain tr where tr:
    "trace (snd (snd (MakeRequest n env cli (decodeRespSync env) ''GET'' ?url None (Some None) st)))
       = tr @ trace st"
    "list_all (sentBy env cli ''GET'' ?url None) tr"
    using MakeRequest_events by blast
  have filter: "map_of (urlQuery ?url) ''filter'' = Some filterID" if "filterID \<noteq> []"
    using that
    by (simp add: BuildURLWithQuery_def BuildURL_def BuildBaseURL_def syncQuery_def Let_def
        update_conv')
  have ev: "isTransport e \<and> (filterID \<noteq> [] \<longrightarrow> usesFilter filterID e)"
    if "sentBy env cli ''GET'' ?url None e" for e
  proof (cases e)
    case (HttpDo req)
    with that have "newRequest env cli ''GET'' ?url None = Inr req"
      by (simp add: sentBy_def)
    then have "reqMethod req = ''GET''" "reqURL req = ?url"
      by (auto simp: newRequest_def split: option.splits)
    with HttpDo filter show ?thesis by simp
  qed (use that in \<open>simp_all add: sentBy_def\<close>)
  have "list_all isTransport tr \<and> (filterID \<noteq> [] \<longrightarrow> list_all (usesFilter filterID) tr)"
    using tr(2) ev by (auto simp: list_all_iff)
  moreover have "trace (snd (snd (SyncRequest n env cli timeout since filterID fullState setPresence st)))
      = tr @ trace st"
    using tr(1) by (auto simp add: SyncRequest_def Let_def split: prod.splits)
  ultimately show ?thesis by blast
qed

lemma CreateFilter_events:
  "\<exists>tr. trace (snd (snd (CreateFilter n env cli filterJSON st))) = tr @ trace st
        \<and> list_all isTransport tr \<and> list_all noLongPoll tr"
proof -
  let ?url = "BuildURL cli [''user'', UserID cli, ''filter'']"
  obtain tr where tr:
    "trace (snd (snd (MakeRequest n env cli (decodeRespCreateFilter env) ''POST'' ?url
                        (Some filterJSON) (Some None) st))) = tr @ trace st"
    "list_all (sentBy env cli ''POST'' ?url (Some filterJSON)) tr"
    using MakeRequest_events by blast
  have ev: "isTransport e \<and> noLongPoll e"
    if "sentBy env cli ''POST'' ?url (Some filterJSON) e" for e
  proof (cases e)
    case (HttpDo req)
    with that have "newRequest env cli ''POST'' ?url (Some filterJSON) = Inr req"
      by (simp add: sentBy_def)
    then have "reqMethod req = ''POST''"
      by (auto simp: newRequest_def split: option.splits sum.splits)
    with HttpDo show ?thesis by simp
  qed (use that in \<open>simp_all add: sentBy_def\<close>)
  have "list_all isTransport tr \<and> list_all noLongPoll tr"
    using tr(2) ev by (auto simp: list_all_iff)
  moreover have "trace (snd (snd (CreateFilter n env cli filterJSON st))) = tr @ trace st"
    using tr(1) by (auto simp add: CreateFilter_def Let_def split: prod.splits)
  ultimately show ?thesis by blast
qed

lemma getSyncingID_trace: "trace (snd (getSyncingID env st)) = trace st"
  by (simp add: getSyncingID_def settle_def Let_def split: prod.splits)

lemma syncPrologue_trace:
  "syncPrologue env cli st = (sid, nextBatch, filterID, st3) \<Longrightarrow>
   trace st3 = StoreLoadFilterID (UserID cli) # StoreLoadNextBatch (UserID cli) # trace st"
  by (auto simp: syncPrologue_def incrementSyncingID_def settle_def log_def Let_def
      split: prod.splits)

subsection \<open>Invariants of the loop\<close>

declare syncLoop.simps(2) [simp del]

text \<open>
  An invariant of the trace and the loop's cursor holds after the loop if it holds before
  and every step of an iteration keeps it. After a dispatch the cursor is the one of the
  snapshot as \<^verbatim>\<open>ProcessResponse\<close> left it.
\<close>

lemma syncLoop_invariant:
  assumes call: "\<And>nb tr. I nb tr \<Longrightarrow> I nb (CallSyncRequest 30000 nb filterID False [] # tr)"
    and transport: "\<And>nb e tr. I nb tr \<Longrightarrow> isTransport e \<Longrightarrow>
                      (filterID \<noteq> [] \<longrightarrow> usesFilter filterID e) \<Longrightarrow> I nb (e # tr)"
    and failed: "\<And>nb r e tr. I nb tr \<Longrightarrow> I nb (SyncerOnFailedSync r e # tr)"
    and dispatch: "\<And>nb rs w tr. I nb tr \<Longrightarrow>
        I (NextBatch (snd (fst (syncerProcessResponse env rs nb w))))
          (SyncerProcessResponse rs nb # StoreSaveNextBatch (UserID cli) (NextBatch rs) # tr)"
    and init: "I nextBatch (trace st)"
  shows "\<exists>nb. I nb (trace (snd (syncLoop n env cli sid nextBatch filterID st)))"
  using init
proof (induction n arbitrary: nextBatch st)
  case 0
  then show ?case by auto
next
  case (Suc n)
  let ?st0 = "log (CallSyncRequest 30000 nextBatch filterID False []) st"
  obtain out resSync st1 where sr:
    "SyncRequest n env cli 30000 nextBatch filterID False [] ?st0 = (out, resSync, st1)"
    by (cases "SyncRequest n env cli 30000 nextBatch filterID False [] ?st0")
  from SyncRequest_events [of n env cli 30000 nextBatch filterID False "[]" ?st0] sr
  obtain tr where tr: "trace st1 = tr @ trace ?st0" "list_all isTransport tr"
    "filterID \<noteq> [] \<longrightarrow> list_all (usesFilter filterID) tr"
    by auto
  have "I nextBatch (trace ?st0)"
    using Suc.prems by (simp add: log_def call)
  have st1: "I nextBatch (trace st1)"
    unfolding tr(1) using tr(2,3)
  proof (induction tr)
    case Nil
    show ?case using \<open>I nextBatch (trace ?st0)\<close> by simp
  next
    case (Cons e tr)
    then show ?case by (simp add: transport)
  qed
  show ?case
  proof (cases out)
    case OutOfFuel
    with sr st1 show ?thesis by (auto simp: syncLoop.simps(2))
  next
    case Panic
    with sr st1 show ?thesis by (auto simp: syncLoop.simps(2))
  next
    case (Returned err)
    show ?thesis
    proof (cases err)
      case (Some e)
      obtain dur err2 w2 where hook: "syncerOnFailedSync env resSync e (world st1) = ((dur, err2), w2)"
        by (cases "syncerOnFailedSync env resSync e (world st1)") auto
      let ?st2 = "log (SyncerOnFailedSync resSync e) (st1\<lparr>world := w2\<rparr>)"
      have st2: "I nextBatch (trace ?st2)"
        using st1 by (simp add: log_def failed)
      show ?thesis
      proof (cases err2)
        case None
        have "I nextBatch (trace (log (Sleep dur) ?st2))"
          using st2 transport [of nextBatch "trace ?st2" "Sleep dur"] by (simp add: log_def)
        from Suc.IH [OF this] show ?thesis
          using sr Returned Some hook None by (simp add: Let_def syncLoop.simps(2))
      next
        case (Some e2)
        with sr Returned \<open>err = Some e\<close> hook st2 show ?thesis
          by (auto simp add: Let_def syncLoop.simps(2))
      qed
    next
      case None
      obtain cur st2 where g: "getSyncingID env st1 = (cur, st2)"
        by (cases "getSyncingID env st1")
      then have st2: "I nextBatch (trace st2)"
        using getSyncingID_trace [of env st1] st1 by simp
      show ?thesis
      proof (cases "cur \<noteq> sid")
        case True
        with sr Returned None g st2 show ?thesis by (auto simp: syncLoop.simps(2))
      next
        case False
        show ?thesis
        proof (cases resSync)
          case nil: None
          with sr Returned None g st2 False show ?thesis by (auto simp: syncLoop.simps(2))
        next
          case (Some rs)
          let ?st3 = "log (StoreSaveNextBatch (UserID cli) (NextBatch rs))
                        (st2\<lparr>world := storeSaveNextBatch env (UserID cli) (NextBatch rs) (world st2)\<rparr>)"
          obtain perr rs' w4 where
            pr: "syncerProcessResponse env rs nextBatch (world ?st3) = ((perr, rs'), w4)"
            by (metis surj_pair)
          let ?st4 = "log (SyncerProcessResponse rs nextBatch) (?st3\<lparr>world := w4\<rparr>)"
          have st4: "I (NextBatch rs') (trace ?st4)"
            using dispatch [OF st2, of rs "world ?st3"] pr by (simp add: log_def)
          show ?thesis
          proof (cases perr)
            case None
            from Suc.IH [OF st4] show ?thesis
              using sr Returned \<open>err = None\<close> g False Some pr None by (simp add: Let_def syncLoop.simps(2))
          next
            case (Some e)
            have "syncLoop (Suc n) env cli sid nextBatch filterID st = (Returned (Some e), ?st4)"
              using sr Returned \<open>err = None\<close> g False \<open>resSync = Some rs\<close> pr Some
              by (simp add: Let_def syncLoop.simps(2))
            with st4 show ?thesis by auto
          qed
        qed
      qed
    qed
  qed
qed

text \<open>
  The same for the whole of \<^verbatim>\<open>Sync\<close>: the events before the loop are none of the three
  that only the loop adds.
\<close>

lemma quiet_preserves:
  assumes "\<And>e tr. I tr \<Longrightarrow> \<not> isLoopEvent e \<Longrightarrow> I (e # tr)"
    and "I tr0" and "list_all isTransport tr"
  shows "I (tr @ tr0)"
  using assms(3)
proof (induction tr)
  case Nil
  show ?case using assms(2) by simp
next
  case (Cons e tr)
  then have "\<not> isLoopEvent e" by (cases e) simp_all
  with Cons show ?case by (simp add: assms(1))
qed

lemma Sync_invariant:
  assumes quiet: "\<And>nb e tr. I nb tr \<Longrightarrow> \<not> isLoopEvent e \<Longrightarrow> I nb (e # tr)"
    and call: "\<And>nb f tr. I nb tr \<Longrightarrow> I nb (CallSyncRequest 30000 nb f False [] # tr)"
    and dispatch: "\<And>nb rs w tr. I nb tr \<Longrightarrow>
        I (NextBatch (snd (fst (syncerProcessResponse env rs nb w))))
          (SyncerProcessResponse rs nb # StoreSaveNextBatch (UserID cli) (NextBatch rs) # tr)"
    and init: "\<And>nb. I nb (trace st)"
  shows "\<exists>nb. I nb (trace (snd (Sync n env cli st)))"
proof -
  obtain sid nextBatch filterID st3 where pro: "syncPrologue env cli st = (sid, nextBatch, filterID, st3)"
    by (cases "syncPrologue env cli st") auto
  have st3: "I nb (trace st3)" for nb
    using syncPrologue_trace [OF pro] init [of nb] by (simp add: quiet)
  have loop: "\<exists>nb. I nb (trace (snd (syncLoop n env cli sid nextBatch f s)))"
    if "I nextBatch (trace s)" for f s
  proof (rule syncLoop_invariant [where I = I])
    show "I nb (e # tr)" if "I nb tr" "isTransport e" for nb e tr
    proof -
      from that(2) have "\<not> isLoopEvent e" by (cases e) simp_all
      with that(1) show ?thesis by (rule quiet)
    qed
  qed (use that in \<open>simp_all add: call dispatch quiet\<close>)
  show ?thesis
  proof (cases "filterID = []")
    case False
    with pro loop [OF st3] show ?thesis by (simp add: Sync_def)
  next
    case True
    obtain filterJSON w4 where gf: "syncerGetFilterJSON env (UserID cli) (world st3) = (filterJSON, w4)"
      by (cases "syncerGetFilterJSON env (UserID cli) (world st3)")
    let ?st4 = "log (CallCreateFilter filterJSON)
                  (log (SyncerGetFilterJSON (UserID cli)) (st3\<lparr>world := w4\<rparr>))"
    have st4: "I nb (trace ?st4)" for nb
      using st3 [of nb] by (simp add: log_def quiet)
    obtain out resFilter st5 where cf: "CreateFilter n env cli filterJSON ?st4 = (out, resFilter, st5)"
      by (cases "CreateFilter n env cli filterJSON ?st4")
    from CreateFilter_events [of n env cli filterJSON ?st4] cf
    obtain tr where tr: "trace st5 = tr @ trace ?st4" "list_all isTransport tr"
      by auto
    have st5: "I nb (trace st5)" for nb
      unfolding tr(1) using quiet st4 tr(2) by (rule quiet_preserves)
    have sync: "Sync n env cli st =
      (case (out, resFilter, st5) of
         (Returned (Some err), resFilter, st5) \<Rightarrow> (Returned (Some err), st5)
       | (Returned None, resFilter, st5) \<Rightarrow>
           (case resFilter of
              None \<Rightarrow> (Panic, st5)
            | Some rf \<Rightarrow>
                syncLoop n env cli sid nextBatch (FilterID rf)
                  (log (StoreSaveFilterID (UserID cli) (FilterID rf))
                     (st5\<lparr>world := storeSaveFilterID env (UserID cli) (FilterID rf) (world st5)\<rparr>)))
       | (other, resFilter, st5) \<Rightarrow> (other, st5))"
      using pro True gf cf by (simp add: Sync_def Let_def)
    show ?thesis
    proof (cases out)
      case OutOfFuel
      with sync st5 show ?thesis by auto
    next
      case Panic
      with sync st5 show ?thesis by auto
    next
      case (Returned err)
      show ?thesis
      proof (cases err)
        case (Some e)
        with sync Returned st5 show ?thesis by auto
      next
        case None
        show ?thesis
        proof (cases resFilter)
          case nil: None
          with sync Returned None st5 show ?thesis by auto
        next
          case (Some rf)
          let ?st6 = "log (StoreSaveFilterID (UserID cli) (FilterID rf))
                     (st5\<lparr>world := storeSaveFilterID env (UserID cli) (FilterID rf) (world st5)\<rparr>)"
          have "I nextBatch (trace ?st6)"
            using st5 [of nextBatch] by (simp add: log_def quiet)
          from loop [OF this] show ?thesis
            using sync Returned None Some by simp
        qed
      qed
    qed
  qed
qed

lemma Itoa_30000: "Itoa 30000 = ''30000''"
  by (simp add: Itoa_def natDigits.simps)

lemmas demo_sync_run = demo_run syncLoop.simps(2) Sync_def syncPrologue_def SyncRequest_def CreateFilter_def
  incrementSyncingID_def getSyncingID_def settle_def theResult_def BuildURLWithQuery_def
  BuildURL_def BuildBaseURL_def syncQuery_def Itoa_30000

subsection \<open>The number of steps is a bound only\<close>

lemma MakeRequest_fuel:
  "MakeRequest n env cli dec method httpURL reqBody' resBody st = (Returned x, rb, st') \<Longrightarrow>
   MakeRequest (n + k) env cli dec method httpURL reqBody' resBody st = (Returned x, rb, st')"
proof (induction n arbitrary: st x rb st')
  case 0
  then show ?case by simp
next
  case (Suc n)
  let ?out = "\<lambda>m. MakeRequest m env cli dec method httpURL reqBody' resBody st"
  have same: "?out (Suc (n + k)) = ?out (Suc n)"
  proof (cases "newRequest env cli method httpURL reqBody'")
    case (Inl e)
    then show ?thesis by (simp add: MakeRequest_prepare_fails)
  next
    case (Inr req)
    obtain r w1 where do: "clientDo env req (world st) = (r, w1)"
      by (cases "clientDo env req (world st)")
    show ?thesis
    proof (cases r)
      case (Inl e)
      with Inr do show ?thesis by (simp add: MakeRequest_do_fails)
    next
      case res: (Inr res)
      consider (retry) "StatusCode res = 429"
        | (fail) "StatusCode res \<noteq> 429" "StatusCode res div 100 \<noteq> 2"
        | (ok) "StatusCode res div 100 = 2"
        by blast
      then show ?thesis
      proof cases
        case retry
        obtain dur err w2 where hr: "HandleRetry env res 5000000000 w1 = ((dur, err), w2)"
          by (cases "HandleRetry env res 5000000000 w1") auto
        show ?thesis
        proof (cases err)
          case (Some e)
          with Inr do res retry hr show ?thesis
            by (simp add: MakeRequest_retry_refused)
        next
          case None
          let ?st' = "log (Sleep dur) (log (HttpDo req) (st\<lparr>world := w2\<rparr>))"
          let ?inner = "\<lambda>m. MakeRequest m env cli dec method httpURL reqBody' resBody ?st'"
          note step = MakeRequest_retry [OF Inr do [unfolded res] retry hr [unfolded None]]
          obtain out rb1 st3 where inner: "?inner n = (out, rb1, st3)"
            by (cases "?inner n")
          with step [of n dec resBody] Suc.prems obtain y where out: "out = Returned y"
            by (cases out) auto
          from Suc.IH [OF inner [unfolded out]] have "?inner (n + k) = (Returned y, rb1, st3)" .
          with step [of "n + k" dec resBody] step [of n dec resBody] inner out
          show ?thesis by simp
        qed
      next
        case fail
        with Inr do res show ?thesis
          by (simp add: MakeRequest_not2xx)
      next
        case ok
        with Inr do res show ?thesis
          by (simp add: MakeRequest_2xx)
      qed
    qed
  qed
  with Suc.prems show ?case by simp
qed

lemma SyncRequest_fuel:
  assumes "SyncRequest n env cli timeout since filterID fullState setPresence st = (Returned x, r, st')"
  shows "SyncRequest (n + k) env cli timeout since filterID fullState setPresence st = (Returned x, r, st')"
proof -
  let ?url = "BuildURLWithQuery cli [''sync''] (syncQuery timeout since filterID fullState setPresence)"
  obtain out rb st1 where m:
    "MakeRequest n env cli (decodeRespSync env) ''GET'' ?url None (Some None) st = (out, rb, st1)"
    by (cases "MakeRequest n env cli (decodeRespSync env) ''GET'' ?url None (Some None) st")
  with assms have "out = Returned x" "theResult rb = r" "st1 = st'"
    by (simp_all add: SyncRequest_def Let_def)
  with MakeRequest_fuel [of n env cli "decodeRespSync env" "''GET''" ?url None "Some None" st x rb st' k] m
  show ?thesis
    by (simp add: SyncRequest_def Let_def)
qed

lemma CreateFilter_fuel:
  assumes "CreateFilter n env cli filterJSON st = (Returned x, r, st')"
  shows "CreateFilter (n + k) env cli filterJSON st = (Returned x, r, st')"
proof -
  let ?url = "BuildURL cli [''user'', UserID cli, ''filter'']"
  obtain out rb st1 where m:
    "MakeRequest n env cli (decodeRespCreateFilter env) ''POST'' ?url (Some filterJSON) (Some None) st
       = (out, rb, st1)"
    by (cases "MakeRequest n env cli (decodeRespCreateFilter env) ''POST'' ?url (Some filterJSON)
                 (Some None) st")
  with assms have "out = Returned x" "theResult rb = r" "st1 = st'"
    by (simp_all add: CreateFilter_def Let_def)
  with MakeRequest_fuel [of n env cli "decodeRespCreateFilter env" "''POST''" ?url "Some filterJSON"
      "Some None" st x rb st' k] m
  show ?thesis
    by (simp add: CreateFilter_def Let_def)
qed

lemma syncLoop_fuel:
  "syncLoop n env cli sid nextBatch filterID st = (Returned x, st') \<Longrightarrow>
   syncLoop (n + k) env cli sid nextBatch filterID st = (Returned x, st')"
proof (induction n arbitrary: nextBatch st)
  case 0
  then show ?case by simp
next
  case (Suc n)
  let ?st0 = "log (CallSyncRequest 30000 nextBatch filterID False []) st"
  obtain out resSync st1 where sr:
    "SyncRequest n env cli 30000 nextBatch filterID False [] ?st0 = (out, resSync, st1)"
    by (cases "SyncRequest n env cli 30000 nextBatch filterID False [] ?st0")
  with Suc.prems obtain err where out: "out = Returned err"
    by (cases out) (auto simp: syncLoop.simps(2))
  note sr' = SyncRequest_fuel [OF sr [unfolded out], of k]
  show ?case
  proof (cases err)
    case (Some e)
    obtain dur err2 w2 where hook: "syncerOnFailedSync env resSync e (world st1) = ((dur, err2), w2)"
      by (cases "syncerOnFailedSync env resSync e (world st1)") auto
    show ?thesis
    proof (cases err2)
      case None
      let ?st2 = "log (Sleep dur) (log (SyncerOnFailedSync resSync e) (st1\<lparr>world := w2\<rparr>))"
      have "syncLoop n env cli sid nextBatch filterID ?st2 = (Returned x, st')"
        using Suc.prems sr out Some hook None by (simp add: syncLoop.simps(2))
      from Suc.IH [OF this] show ?thesis
        using sr' Some hook None by (simp add: syncLoop.simps(2))
    next
      case e2: (Some e2)
      with Suc.prems sr sr' out Some hook show ?thesis
        by (auto simp add: syncLoop.simps(2))
    qed
  next
    case None
    obtain cur st2 where g: "getSyncingID env st1 = (cur, st2)"
      by (cases "getSyncingID env st1")
    show ?thesis
    proof (cases "cur \<noteq> sid")
      case True
      with Suc.prems sr sr' out None g show ?thesis
        by (auto simp add: syncLoop.simps(2))
    next
      case False
      show ?thesis
      proof (cases resSync)
        case nil: None
        with Suc.prems sr out None g False show ?thesis
          by (auto simp add: syncLoop.simps(2))
      next
        case (Some rs)
        let ?st3 = "log (StoreSaveNextBatch (UserID cli) (NextBatch rs))
                      (st2\<lparr>world := storeSaveNextBatch env (UserID cli) (NextBatch rs) (world st2)\<rparr>)"
        obtain perr rs' w4 where
          pr: "syncerProcessResponse env rs nextBatch (world ?st3) = ((perr, rs'), w4)"
          by (metis surj_pair)
        let ?st4 = "log (SyncerProcessResponse rs nextBatch) (?st3\<lparr>world := w4\<rparr>)"
        show ?thesis
        proof (cases perr)
          case perr: None
          have "syncLoop n env cli sid (NextBatch rs') filterID ?st4 = (Returned x, st')"
            using Suc.prems sr out None g False Some pr perr by (simp add: syncLoop.simps(2) Let_def)
          from Suc.IH [OF this] show ?thesis
            using sr' None g False Some pr perr by (simp add: syncLoop.simps(2) Let_def)
        next
          case perr: (Some e)
          with Suc.prems sr sr' out None g False Some pr show ?thesis
            by (auto simp add: syncLoop.simps(2) Let_def)
        qed
      qed
    qed
  qed
qed

lemma Sync_fuel:
  assumes "Sync n env cli st = (Returned x, st')"
  shows "Sync (n + k) env cli st = (Returned x, st')"
proof -
  obtain sid nextBatch filterID st3 where pro: "syncPrologue env cli st = (sid, nextBatch, filterID, st3)"
    by (cases "syncPrologue env cli st") auto
  show ?thesis
  proof (cases "filterID = []")
    case False
    with assms pro syncLoop_fuel [of n env cli sid nextBatch filterID st3 x st' k] show ?thesis
      by (simp add: Sync_def)
  next
    case True
    obtain filterJSON w4 where gf: "syncerGetFilterJSON env (UserID cli) (world st3) = (filterJSON, w4)"
      by (cases "syncerGetFilterJSON env (UserID cli) (world st3)")
    let ?st4 = "log (CallCreateFilter filterJSON)
                  (log (SyncerGetFilterJSON (UserID cli)) (st3\<lparr>world := w4\<rparr>))"
    obtain out resFilter st5 where cf: "CreateFilter n env cli filterJSON ?st4 = (out, resFilter, st5)"
      by (cases "CreateFilter n env cli filterJSON ?st4")
    with assms pro True gf obtain err where out: "out = Returned err"
      by (cases out) (auto simp: Sync_def Let_def)
    note cf' = CreateFilter_fuel [OF cf [unfolded out], of k]
    show ?thesis
    proof (cases err)
      case (Some e)
      with assms pro True gf cf cf' out show ?thesis
        by (auto simp add: Sync_def Let_def)
    next
      case None
      show ?thesis
      proof (cases resFilter)
        case nil: None
        with assms pro True gf cf out None show ?thesis
          by (auto simp add: Sync_def Let_def)
      next
        case (Some rf)
        let ?st6 = "log (StoreSaveFilterID (UserID cli) (FilterID rf))
                     (st5\<lparr>world := storeSaveFilterID env (UserID cli) (FilterID rf) (world st5)\<rparr>)"
        have "syncLoop n env cli sid nextBatch (FilterID rf) ?st6 = (Returned x, st')"
          using assms pro True gf cf out None Some by (simp add: Sync_def Let_def)
        from syncLoop_fuel [OF this, of k] show ?thesis
          using pro True gf cf' None Some by (simp add: Sync_def Let_def)
      qed
    qed
  qed
qed

subsection \<open>Stopping\<close>

text \<open>
  \<^verbatim>\<open>StopSync\<close> is one more increment of \<^verbatim>\<open>syncingID\<close>; it is what the increments of
  the other goroutines stand for.
\<close>

lemma StopSync_increments:
  "syncingID (StopSync env st) = syncingID st + of_nat (fst (otherIncrements env (world st))) + 1"
  by (simp add: StopSync_def incrementSyncingID_def settle_def Let_def split: prod.splits)

subsection \<open>What the calls leave of the world\<close>

text \<open>
  A property of the world that every call of a collaborator keeps is kept by the functions
  of the client. For the loop, the step of a dispatch is the call of \<^verbatim>\<open>ProcessResponse\<close>
  in the world that \<^verbatim>\<open>SaveNextBatch\<close> has left.
\<close>

lemma HandleRetry_world:
  assumes time: "\<And>t w. P w \<Longrightarrow> P (snd (timeUntil env t w))"
    and init: "P w"
  shows "P (snd (HandleRetry env res dur w))"
proof -
  have "P w'" if "timeUntil env t w = (d, w')" for t d w'
    using time [OF init, of t] that by simp
  with init show ?thesis
    by (auto simp: HandleRetry_def Let_def split: option.splits prod.splits)
qed

lemma MakeRequest_world:
  assumes do: "\<And>req w. P w \<Longrightarrow> P (snd (clientDo env req w))"
    and time: "\<And>t w. P w \<Longrightarrow> P (snd (timeUntil env t w))"
    and init: "P (world st)"
  shows "P (world (snd (snd (MakeRequest n env cli dec method httpURL reqBody' resBody st))))"
  using init
proof (induction n arbitrary: st)
  case 0
  then show ?case by simp
next
  case (Suc n)
  show ?case
  proof (cases "newRequest env cli method httpURL reqBody'")
    case (Inl e)
    with Suc.prems show ?thesis by (simp add: MakeRequest_prepare_fails)
  next
    case (Inr req)
    obtain r w1 where do': "clientDo env req (world st) = (r, w1)"
      by (cases "clientDo env req (world st)")
    have w1: "P w1"
      using do [OF Suc.prems, of req] do' by simp
    show ?thesis
    proof (cases r)
      case (Inl e)
      with Inr do' w1 show ?thesis by (simp add: MakeRequest_do_fails log_def)
    next
      case res: (Inr res)
      consider (retry) "StatusCode res = 429"
        | (fail) "StatusCode res \<noteq> 429" "StatusCode res div 100 \<noteq> 2"
        | (ok) "StatusCode res div 100 = 2"
        by blast
      then show ?thesis
      proof cases
        case retry
        obtain dur err w2 where hr: "HandleRetry env res 5000000000 w1 = ((dur, err), w2)"
          by (cases "HandleRetry env res 5000000000 w1") auto
        have w2: "P w2"
          using HandleRetry_world [of P env w1 res 5000000000, OF time w1] hr by simp
        show ?thesis
        proof (cases err)
          case (Some e)
          with Inr do' res retry hr w2 show ?thesis
            by (simp add: MakeRequest_retry_refused log_def)
        next
          case None
          let ?st' = "log (Sleep dur) (log (HttpDo req) (st\<lparr>world := w2\<rparr>))"
          have "P (world ?st')"
            using w2 by (simp add: log_def)
          from Suc.IH [OF this] show ?thesis
            using Inr do' res retry hr None by (simp add: MakeRequest_retry_state)
        qed
      next
        case fail
        with Inr do' res w1 show ?thesis
          by (cases "Body res") (simp_all add: MakeRequest_not2xx log_def)
      next
        case ok
        with Inr do' res w1 show ?thesis
          by (simp add: MakeRequest_2xx log_def)
      qed
    qed
  qed
qed

lemma SyncRequest_world:
  assumes "\<And>req w. P w \<Longrightarrow> P (snd (clientDo env req w))"
    and "\<And>t w. P w \<Longrightarrow> P (snd (timeUntil env t w))"
    and "P (world st)"
  shows "P (world (snd (snd (SyncRequest n env cli timeout since filterID fullState setPresence st))))"
  using MakeRequest_world [of P env st n cli "decodeRespSync env" "''GET''"
      "BuildURLWithQuery cli [''sync''] (syncQuery timeout since filterID fullState setPresence)"
      None "Some None", OF assms]
  by (auto simp add: SyncRequest_def Let_def split: prod.splits)

lemma CreateFilter_world:
  assumes "\<And>req w. P w \<Longrightarrow> P (snd (clientDo env req w))"
    and "\<And>t w. P w \<Longrightarrow> P (snd (timeUntil env t w))"
    and "P (world st)"
  shows "P (world (snd (snd (CreateFilter n env cli filterJSON st))))"
  using MakeRequest_world [of P env st n cli "decodeRespCreateFilter env" "''POST''"
      "BuildURL cli [''user'', UserID cli, ''filter'']" "Some filterJSON" "Some None", OF assms]
  by (auto simp add: CreateFilter_def Let_def split: prod.splits)

lemma getSyncingID_world:
  "world (snd (getSyncingID env st)) = snd (otherIncrements env (world st))"
  by (simp add: getSyncingID_def settle_def Let_def split: prod.splits)

lemma syncLoop_world:
  assumes do: "\<And>req w. P w \<Longrightarrow> P (snd (clientDo env req w))"
    and time: "\<And>t w. P w \<Longrightarrow> P (snd (timeUntil env t w))"
    and incr: "\<And>w. P w \<Longrightarrow> P (snd (otherIncrements env w))"
    and failed: "\<And>r e w. P w \<Longrightarrow> P (snd (syncerOnFailedSync env r e w))"
    and dispatch: "\<And>rs nb w. P w \<Longrightarrow>
        P (snd (syncerProcessResponse env rs nb
                  (storeSaveNextBatch env (UserID cli) (NextBatch rs) w)))"
    and init: "P (world st)"
  shows "P (world (snd (syncLoop n env cli sid nextBatch filterID st)))"
  using init
proof (induction n arbitrary: nextBatch st)
  case 0
  then show ?case by simp
next
  case (Suc n)
  let ?st0 = "log (CallSyncRequest 30000 nextBatch filterID False []) st"
  obtain out resSync st1 where sr:
    "SyncRequest n env cli 30000 nextBatch filterID False [] ?st0 = (out, resSync, st1)"
    by (cases "SyncRequest n env cli 30000 nextBatch filterID False [] ?st0")
  have "P (world ?st0)"
    using Suc.prems by (simp add: log_def)
  from SyncRequest_world [of P env ?st0 n cli 30000 nextBatch filterID False "[]", OF do time this] sr
  have st1: "P (world st1)"
    by simp
  show ?case
  proof (cases out)
    case OutOfFuel
    with sr st1 show ?thesis by (simp add: syncLoop.simps(2))
  next
    case Panic
    with sr st1 show ?thesis by (simp add: syncLoop.simps(2))
  next
    case (Returned err)
    show ?thesis
    proof (cases err)
      case (Some e)
      obtain dur err2 w2 where hook: "syncerOnFailedSync env resSync e (world st1) = ((dur, err2), w2)"
        by (cases "syncerOnFailedSync env resSync e (world st1)") auto
      have w2: "P w2"
        using failed [OF st1, of resSync e] hook by simp
      let ?st2 = "log (SyncerOnFailedSync resSync e) (st1\<lparr>world := w2\<rparr>)"
      show ?thesis
      proof (cases err2)
        case None
        have "P (world (log (Sleep dur) ?st2))"
          using w2 by (simp add: log_def)
        from Suc.IH [OF this] show ?thesis
          using sr Returned Some hook None by (simp add: Let_def syncLoop.simps(2))
      next
        case (Some e2)
        with sr Returned \<open>err = Some e\<close> hook w2 show ?thesis
          by (simp add: Let_def syncLoop.simps(2) log_def)
      qed
    next
      case None
      obtain cur st2 where g: "getSyncingID env st1 = (cur, st2)"
        by (cases "getSyncingID env st1")
      have st2: "P (world st2)"
        using getSyncingID_world [of env st1] g incr [OF st1] by simp
      show ?thesis
      proof (cases "cur \<noteq> sid")
        case True
        with sr Returned None g st2 show ?thesis by (simp add: syncLoop.simps(2))
      next
        case False
        show ?thesis
        proof (cases resSync)
          case nil: None
          with sr Returned None g st2 False show ?thesis by (simp add: syncLoop.simps(2))
        next
          case (Some rs)
          let ?st3 = "log (StoreSaveNextBatch (UserID cli) (NextBatch rs))
                        (st2\<lparr>world := storeSaveNextBatch env (UserID cli) (NextBatch rs) (world st2)\<rparr>)"
          obtain perr rs' w4 where
            pr: "syncerProcessResponse env rs nextBatch (world ?st3) = ((perr, rs'), w4)"
            by (metis surj_pair)
          let ?st4 = "log (SyncerProcessResponse rs nextBatch) (?st3\<lparr>world := w4\<rparr>)"
          have st4: "P (world ?st4)"
            using dispatch [OF st2, of rs nextBatch] pr by (simp add: log_def)
          show ?thesis
          proof (cases perr)
            case None
            from Suc.IH [OF st4] show ?thesis
              using sr Returned \<open>err = None\<close> g False Some pr None by (simp add: Let_def syncLoop.simps(2))
          next
            case (Some e)
            have "syncLoop (Suc n) env cli sid nextBatch filterID st = (Returned (Some e), ?st4)"
              using sr Returned \<open>err = None\<close> g False \<open>resSync = Some rs\<close> pr Some
              by (simp add: Let_def syncLoop.simps(2))
            with st4 show ?thesis by simp
          qed
        qed
      qed
    qed
  qed
qed

lemma syncPrologue_world:
  assumes incr: "\<And>w. P w \<Longrightarrow> P (snd (otherIncrements env w))"
    and loadNextBatch: "\<And>u w. P w \<Longrightarrow> P (snd (storeLoadNextBatch env u w))"
    and loadFilterID: "\<And>u w. P w \<Longrightarrow> P (snd (storeLoadFilterID env u w))"
    and init: "P (world st)"
  shows "P (world (snd (snd (snd (syncPrologue env cli st)))))"
proof -
  obtain k w1 where i: "otherIncrements env (world st) = (k, w1)"
    by (cases "otherIncrements env (world st)")
  have w1: "P w1"
    using incr [OF init] i by simp
  obtain nb w2 where l: "storeLoadNextBatch env (UserID cli) w1 = (nb, w2)"
    by (cases "storeLoadNextBatch env (UserID cli) w1")
  have w2: "P w2"
    using loadNextBatch [OF w1, of "UserID cli"] l by simp
  obtain f w3 where lf: "storeLoadFilterID env (UserID cli) w2 = (f, w3)"
    by (cases "storeLoadFilterID env (UserID cli) w2")
  have w3: "P w3"
    using loadFilterID [OF w2, of "UserID cli"] lf by simp
  show ?thesis
    using i l lf w3
    by (simp add: syncPrologue_def incrementSyncingID_def settle_def log_def Let_def)
qed

lemma Sync_world:
  assumes do: "\<And>req w. P w \<Longrightarrow> P (snd (clientDo env req w))"
    and time: "\<And>t w. P w \<Longrightarrow> P (snd (timeUntil env t w))"
    and incr: "\<And>w. P w \<Longrightarrow> P (snd (otherIncrements env w))"
    and loadNextBatch: "\<And>u w. P w \<Longrightarrow> P (snd (storeLoadNextBatch env u w))"
    and loadFilterID: "\<And>u w. P w \<Longrightarrow> P (snd (storeLoadFilterID env u w))"
    and getFilter: "\<And>u w. P w \<Longrightarrow> P (snd (syncerGetFilterJSON env u w))"
    and saveFilter: "\<And>u v w. P w \<Longrightarrow> P (storeSaveFilterID env u v w)"
    and failed: "\<And>r e w. P w \<Longrightarrow> P (snd (syncerOnFailedSync env r e w))"
    and dispatch: "\<And>rs nb w. P w \<Longrightarrow>
        P (snd (syncerProcessResponse env rs nb
                  (storeSaveNextBatch env (UserID cli) (NextBatch rs) w)))"
    and init: "P (world st)"
  shows "P (world (snd (Sync n env cli st)))"
proof -
  obtain sid nextBatch filterID st3 where pro: "syncPrologue env cli st = (sid, nextBatch, filterID, st3)"
    by (cases "syncPrologue env cli st") auto
  have st3: "P (world st3)"
    using syncPrologue_world [of P env st cli, OF incr loadNextBatch loadFilterID init] pro by simp
  have loop: "P (world (snd (syncLoop n env cli sid nextBatch f s)))" if "P (world s)" for f s
    using do time incr failed dispatch that by (rule syncLoop_world)
  show ?thesis
  proof (cases "filterID = []")
    case False
    with pro loop [OF st3] show ?thesis by (simp add: Sync_def)
  next
    case True
    obtain filterJSON w4 where gf: "syncerGetFilterJSON env (UserID cli) (world st3) = (filterJSON, w4)"
      by (cases "syncerGetFilterJSON env (UserID cli) (world st3)")
    have w4: "P w4"
      using getFilter [OF st3, of "UserID cli"] gf by simp
    let ?st4 = "log (CallCreateFilter filterJSON)
                  (log (SyncerGetFilterJSON (UserID cli)) (st3\<lparr>world := w4\<rparr>))"
    have st4: "P (world ?st4)"
      using w4 by (simp add: log_def)
    obtain out resFilter st5 where cf: "CreateFilter n env cli filterJSON ?st4 = (out, resFilter, st5)"
      by (cases "CreateFilter n env cli filterJSON ?st4")
    from CreateFilter_world [of P env ?st4 n cli filterJSON, OF do time st4] cf
    have st5: "P (world st5)"
      by simp
    have sync: "Sync n env cli st =
      (case (out, resFilter, st5) of
         (Returned (Some err), resFilter, st5) \<Rightarrow> (Returned (Some err), st5)
       | (Returned None, resFilter, st5) \<Rightarrow>
           (case resFilter of
              None \<Rightarrow> (Panic, st5)
            | Some rf \<Rightarrow>
                syncLoop n env cli sid nextBatch (FilterID rf)
                  (log (StoreSaveFilterID (UserID cli) (FilterID rf))
                     (st5\<lparr>world := storeSaveFilterID env (UserID cli) (FilterID rf) (world st5)\<rparr>)))
       | (other, resFilter, st5) \<Rightarrow> (other, st5))"
      using pro True gf cf by (simp add: Sync_def Let_def)
    show ?thesis
    proof (cases out)
      case OutOfFuel
      with sync st5 show ?thesis by simp
    next
      case Panic
      with sync st5 show ?thesis by simp
    next
      case (Returned err)
      show ?thesis
      proof (cases err)
        case (Some e)
        with sync Returned st5 show ?thesis by simp
      next
        case None
        show ?thesis
        proof (cases resFilter)
          case nil: None
          with sync Returned None st5 show ?thesis by simp
        next
          case (Some rf)
          let ?st6 = "log (StoreSaveFilterID (UserID cli) (FilterID rf))
                     (st5\<lparr>world := storeSaveFilterID env (UserID cli) (FilterID rf) (world st5)\<rparr>)"
          have "P (world ?st6)"
            using saveFilter [OF st5, of "UserID cli" "FilterID rf"] by (simp add: log_def)
          from loop [OF this] show ?thesis
            using sync Returned None Some by simp
        qed
      qed
    qed
  qed
qed

subsection \<open>The journal of the store and the syncer\<close>

lemma journalled_simps:
  "snd (snd (clientDo (journalled env) req (w, j))) = j"
  "snd (snd (timeUntil (journalled env) t (w, j))) = j"
  "snd (snd (otherIncrements (journalled env) (w, j))) = j"
  "snd (snd (storeLoadNextBatch (journalled env) uid (w, j))) = StoreLoadNextBatch uid # j"
  "snd (snd (storeLoadFilterID (journalled env) uid (w, j))) = StoreLoadFilterID uid # j"
  "snd (snd (syncerGetFilterJSON (journalled env) uid (w, j))) = SyncerGetFilterJSON uid # j"
  "storeSaveFilterID (journalled env) uid v (w, j) =
     (storeSaveFilterID env uid v w, StoreSaveFilterID uid v # j)"
  "storeSaveNextBatch (journalled env) uid v (w, j) =
     (storeSaveNextBatch env uid v w, StoreSaveNextBatch uid v # j)"
  "snd (snd (syncerOnFailedSync (journalled env) r e (w, j))) = SyncerOnFailedSync r e # j"
  "snd (snd (syncerProcessResponse (journalled env) rs since (w, j))) =
     SyncerProcessResponse rs since # j"
  by (simp_all add: journalled_def split: prod.splits)

text \<open>
  In the journal of a run of \<^verbatim>\<open>Sync\<close>, every \<^verbatim>\<open>ProcessResponse\<close> comes directly after the
  \<^verbatim>\<open>SaveNextBatch\<close> of the cursor of its snapshot.
\<close>

lemma Sync_journal:
  assumes "persistedBeforeDispatch (UserID cli) (snd (world st))"
  shows "persistedBeforeDispatch (UserID cli) (snd (world (snd (Sync n (journalled env) cli st))))"
proof (rule Sync_world [where P = "\<lambda>w. persistedBeforeDispatch (UserID cli) (snd w)"])
  show "persistedBeforeDispatch (UserID cli) (snd (world st))"
    by (rule assms)
qed (auto simp add: journalled_simps)

subsection \<open>Persist, then dispatch\<close>

lemma persistedBeforeDispatch_quiet:
  "persistedBeforeDispatch uid tr \<Longrightarrow> \<not> isLoopEvent e \<Longrightarrow> persistedBeforeDispatch uid (e # tr)"
  by (cases e) simp_all

lemma syncLoop_extends:
  "\<exists>tr. trace (snd (syncLoop n env cli sid nextBatch filterID st)) = tr @ trace st"
proof -
  let ?I = "\<lambda>nb :: string. \<lambda>tr. \<exists>tr'. tr = tr' @ trace st"
  have "\<exists>nb. ?I nb (trace (snd (syncLoop n env cli sid nextBatch filterID st)))"
    by (rule syncLoop_invariant [where I = ?I]) auto
  then show ?thesis by simp
qed

text \<open>
  An iteration whose long poll returns a snapshot and whose generation check passes: the
  store saves the cursor, the syncer gets the snapshot in the world the store has left, and
  the loop ends with the syncer's error or goes on with the cursor of the snapshot as the
  syncer left it.
\<close>

lemma syncLoop_passes:
  assumes "SyncRequest n env cli 30000 nextBatch filterID False []
             (log (CallSyncRequest 30000 nextBatch filterID False []) st) = (Returned None, Some rs, st1)"
    and "fst (getSyncingID env st1) = sid"
  shows "syncLoop (Suc n) env cli sid nextBatch filterID st =
     (let st2 = snd (getSyncingID env st1);
          saved = storeSaveNextBatch env (UserID cli) (NextBatch rs) (world st2);
          ((perr, rs'), w4) = syncerProcessResponse env rs nextBatch saved;
          st4 = st2\<lparr>world := w4,
                    trace := SyncerProcessResponse rs nextBatch #
                             StoreSaveNextBatch (UserID cli) (NextBatch rs) # trace st1\<rparr>
      in case perr of
           Some e \<Rightarrow> (Returned (Some e), st4)
         | None \<Rightarrow> syncLoop n env cli sid (NextBatch rs') filterID st4)"
proof -
  obtain cur st2 where g: "getSyncingID env st1 = (cur, st2)"
    by (cases "getSyncingID env st1")
  with assms(2) have cur: "cur = sid" by simp
  have tr2: "trace st2 = trace st1"
    using getSyncingID_trace [of env st1] g by simp
  show ?thesis
    using assms(1) g cur tr2
    by (simp add: syncLoop.simps(2) Let_def log_def split: prod.splits option.splits)
qed

lemma syncLoop_dispatches:
  assumes "SyncRequest n env cli 30000 nextBatch filterID False []
             (log (CallSyncRequest 30000 nextBatch filterID False []) st) = (Returned None, Some rs, st1)"
    and "fst (getSyncingID env st1) = sid"
  shows "\<exists>tr. trace (snd (syncLoop (Suc n) env cli sid nextBatch filterID st)) =
           tr @ SyncerProcessResponse rs nextBatch #
                StoreSaveNextBatch (UserID cli) (NextBatch rs) # trace st1"
proof -
  let ?st2 = "snd (getSyncingID env st1)"
  let ?saved = "storeSaveNextBatch env (UserID cli) (NextBatch rs) (world ?st2)"
  obtain perr rs' w4 where
    pr: "syncerProcessResponse env rs nextBatch ?saved = ((perr, rs'), w4)"
    by (metis surj_pair)
  let ?st4 = "?st2\<lparr>world := w4,
                   trace := SyncerProcessResponse rs nextBatch #
                            StoreSaveNextBatch (UserID cli) (NextBatch rs) # trace st1\<rparr>"
  note step = syncLoop_passes [OF assms]
  show ?thesis
  proof (cases perr)
    case (Some e)
    with step pr show ?thesis by (simp add: Let_def)
  next
    case None
    with step pr have "syncLoop (Suc n) env cli sid nextBatch filterID st =
            syncLoop n env cli sid (NextBatch rs') filterID ?st4"
      by (simp add: Let_def)
    with syncLoop_extends [of n env cli sid "NextBatch rs'" filterID ?st4]
    show ?thesis by auto
  qed
qed

text \<open>
  Claim C1. The cursor is saved strictly before the snapshot is dispatched, and no snapshot
  is dispatched whose cursor was not saved:

  \<^item> in every trace of \<^verbatim>\<open>Sync\<close>, finished or not, the event just before a snapshot is
    handed to \<^verbatim>\<open>Syncer.ProcessResponse\<close> is \<^verbatim>\<open>Store.SaveNextBatch\<close> of that snapshot's
    cursor for the client's user;
  \<^item> the same holds of the calls as the store and the syncer receive them: in the journal
    they keep, every \<^verbatim>\<open>ProcessResponse\<close> comes directly after the \<^verbatim>\<open>SaveNextBatch\<close> of
    the cursor of its snapshot;
  \<^item> in every iteration whose long poll returns a snapshot without an error and whose
    generation check passes, the store saves the cursor in the world that the check left,
    the syncer is called in the world that this write produced, and the loop returns the
    syncer's error or goes on from the world the syncer left; the trace goes on with that
    \<^verbatim>\<open>SaveNextBatch\<close> and then that \<^verbatim>\<open>ProcessResponse\<close>.
\<close>

theorem cursor_persisted_before_dispatch:
  "(persistedBeforeDispatch (UserID cli) (trace st) \<longrightarrow>
      persistedBeforeDispatch (UserID cli) (trace (snd (Sync n env cli st))))
   \<and> (persistedBeforeDispatch (UserID cli) (snd (world stj)) \<longrightarrow>
      persistedBeforeDispatch (UserID cli) (snd (world (snd (Sync n (journalled env) cli stj)))))
   \<and> (SyncRequest m env cli 30000 nextBatch filterID False []
         (log (CallSyncRequest 30000 nextBatch filterID False []) st0) = (Returned None, Some rs, st1)
       \<and> fst (getSyncingID env st1) = sid \<longrightarrow>
      syncLoop (Suc m) env cli sid nextBatch filterID st0 =
        (let st2 = snd (getSyncingID env st1);
             saved = storeSaveNextBatch env (UserID cli) (NextBatch rs) (world st2);
             ((perr, rs'), w4) = syncerProcessResponse env rs nextBatch saved;
             st4 = st2\<lparr>world := w4,
                       trace := SyncerProcessResponse rs nextBatch #
                                StoreSaveNextBatch (UserID cli) (NextBatch rs) # trace st1\<rparr>
         in case perr of
              Some e \<Rightarrow> (Returned (Some e), st4)
            | None \<Rightarrow> syncLoop m env cli sid (NextBatch rs') filterID st4)
      \<and> (\<exists>tr. trace (snd (syncLoop (Suc m) env cli sid nextBatch filterID st0)) =
            tr @ SyncerProcessResponse rs nextBatch #
                 StoreSaveNextBatch (UserID cli) (NextBatch rs) # trace st1))"
proof -
  have "persistedBeforeDispatch (UserID cli) (trace (snd (Sync n env cli st)))"
    if "persistedBeforeDispatch (UserID cli) (trace st)"
  proof -
    have "\<exists>nb :: string. persistedBeforeDispatch (UserID cli) (trace (snd (Sync n env cli st)))"
      by (rule Sync_invariant [where I = "\<lambda>nb. persistedBeforeDispatch (UserID cli)"])
        (simp_all add: that persistedBeforeDispatch_quiet)
    then show ?thesis by simp
  qed
  then show ?thesis
    using syncLoop_dispatches [of m env cli nextBatch filterID st0 rs st1 sid]
      syncLoop_passes [of m env cli nextBatch filterID st0 rs st1 sid]
      Sync_journal [of cli stj n env]
    by blast
qed

text \<open>
  One snapshot with cursor \<open>s1\<close>, which the syncer then refuses. The cursor was saved
  first: in the trace, in the journal of the store and the syncer, and in the store with
  which \<^verbatim>\<open>Sync\<close> returns the syncer's error.
\<close>

theorem cursor_persisted_witness:
  "persistedBeforeDispatch ''@u:hs''
     (trace (snd (Sync (Suc (Suc 0)) demoEnv demoClient
        (demoState (demoStored\<lparr>httpScript := [demoResponse 200 [] ''next_batch=s1''],
                                 rejected := [''s1'']\<rparr>)))))
   \<and> filter (\<lambda>e. \<not> isTransport e)
       (trace (snd (Sync (Suc (Suc 0)) demoEnv demoClient
        (demoState (demoStored\<lparr>httpScript := [demoResponse 200 [] ''next_batch=s1''],
                                 rejected := [''s1'']\<rparr>)))))
     = [SyncerProcessResponse \<lparr>NextBatch = ''s1'', Payload = []\<rparr> [],
        StoreSaveNextBatch ''@u:hs'' ''s1'',
        CallSyncRequest 30000 [] ''f1'' False [],
        StoreLoadFilterID ''@u:hs'', StoreLoadNextBatch ''@u:hs'']
   \<and> persistedBeforeDispatch ''@u:hs''
       (snd (world (snd (Sync (Suc (Suc 0)) (journalled demoEnv) demoClient
          \<lparr>syncingID = 0,
           world = (demoStored\<lparr>httpScript := [demoResponse 200 [] ''next_batch=s1''],
                               rejected := [''s1'']\<rparr>, []),
           trace = []\<rparr>))))
   \<and> snd (world (snd (Sync (Suc (Suc 0)) (journalled demoEnv) demoClient
          \<lparr>syncingID = 0,
           world = (demoStored\<lparr>httpScript := [demoResponse 200 [] ''next_batch=s1''],
                               rejected := [''s1'']\<rparr>, []),
           trace = []\<rparr>)))
     = [SyncerProcessResponse \<lparr>NextBatch = ''s1'', Payload = []\<rparr> [],
        StoreSaveNextBatch ''@u:hs'' ''s1'',
        StoreLoadFilterID ''@u:hs'', StoreLoadNextBatch ''@u:hs'']
   \<and> syncLoop (Suc (Suc 0)) demoEnv demoClient 1 [] ''f1''
         \<lparr>syncingID = 1,
          world = demoStored\<lparr>httpScript := [demoResponse 200 [] ''next_batch=s1''],
                             rejected := [''s1'']\<rparr>,
          trace = []\<rparr>
     = (Returned (Some (ErrorString ''malformed snapshot'')),
        \<lparr>syncingID = 1,
         world = demoStored\<lparr>nextBatches := [(''@u:hs'', ''s1'')], rejected := [''s1'']\<rparr>,
         trace = [SyncerProcessResponse \<lparr>NextBatch = ''s1'', Payload = []\<rparr> [],
                  StoreSaveNextBatch ''@u:hs'' ''s1'',
                  HttpDo \<lparr>reqMethod = ''GET'',
                    reqURL = \<lparr>urlHomeserver = ''https://hs'',
                              urlElems = [''/_matrix/client/v3'', ''sync''],
                              urlQuery = [(''timeout'', ''30000''), (''filter'', ''f1'')]\<rparr>,
                    reqHeader = [(''Content-Type'', ''application/json''),
                                 (''Authorization'', ''Bearer tok'')],
                    reqBody = None\<rparr>,
                  CallSyncRequest 30000 [] ''f1'' False []]\<rparr>)"
proof -
  let ?w = "demoStored\<lparr>httpScript := [demoResponse 200 [] ''next_batch=s1''],
                       rejected := [''s1'']\<rparr>"
  let ?st = "demoState ?w"
  let ?stj = "\<lparr>syncingID = 0, world = (?w, [] :: event list), trace = []\<rparr>"
  let ?head = "\<lparr>syncingID = 1, world = ?w, trace = []\<rparr>"
  let ?req = "\<lparr>reqMethod = ''GET'',
                  reqURL = \<lparr>urlHomeserver = ''https://hs'',
                            urlElems = [''/_matrix/client/v3'', ''sync''],
                            urlQuery = [(''timeout'', ''30000''), (''filter'', ''f1'')]\<rparr>,
                  reqHeader = [(''Content-Type'', ''application/json''),
                               (''Authorization'', ''Bearer tok'')],
                  reqBody = None\<rparr>"
  let ?polled = "\<lparr>syncingID = 1, world = demoStored\<lparr>rejected := [''s1'']\<rparr>,
               trace = [HttpDo ?req, CallSyncRequest 30000 [] ''f1'' False []]\<rparr>"
  let ?rs = "\<lparr>NextBatch = ''s1'', Payload = []\<rparr>"
  note inst = cursor_persisted_before_dispatch
    [of demoClient ?st "Suc (Suc 0)" demoEnv ?stj "Suc 0" "[]" "''f1''" ?head ?rs ?polled 1]
  have "persistedBeforeDispatch (UserID demoClient) (trace ?st)"
    by (simp add: demoState_def)
  with inst [THEN conjunct1]
  have a: "persistedBeforeDispatch ''@u:hs'' (trace (snd (Sync (Suc (Suc 0)) demoEnv demoClient ?st)))"
    by (simp add: demoClient_simps)
  have b: "filter (\<lambda>e. \<not> isTransport e)
       (trace (snd (Sync (Suc (Suc 0)) demoEnv demoClient ?st)))
     = [SyncerProcessResponse ?rs [],
        StoreSaveNextBatch ''@u:hs'' ''s1'',
        CallSyncRequest 30000 [] ''f1'' False [],
        StoreLoadFilterID ''@u:hs'', StoreLoadNextBatch ''@u:hs'']"
    by (simp add: demo_sync_run demoStored_def)
  have "persistedBeforeDispatch (UserID demoClient) (snd (world ?stj))"
    by simp
  with inst [THEN conjunct2, THEN conjunct1]
  have j: "persistedBeforeDispatch ''@u:hs''
             (snd (world (snd (Sync (Suc (Suc 0)) (journalled demoEnv) demoClient ?stj))))"
    by (simp add: demoClient_simps)
  have k: "snd (world (snd (Sync (Suc (Suc 0)) (journalled demoEnv) demoClient ?stj)))
     = [SyncerProcessResponse ?rs [], StoreSaveNextBatch ''@u:hs'' ''s1'',
        StoreLoadFilterID ''@u:hs'', StoreLoadNextBatch ''@u:hs'']"
    by (simp add: journalled_def newRequest_def demo_sync_run demoStored_def)
  have sr: "SyncRequest (Suc 0) demoEnv demoClient 30000 [] ''f1'' False []
              (log (CallSyncRequest 30000 [] ''f1'' False []) ?head) = (Returned None, Some ?rs, ?polled)"
    by (simp add: demo_sync_run demoStored_def)
  have g: "fst (getSyncingID demoEnv ?polled) = 1"
    by (simp add: demo_sync_run demoStored_def)
  from inst [THEN conjunct2, THEN conjunct2] sr g
  have c: "syncLoop (Suc (Suc 0)) demoEnv demoClient 1 [] ''f1'' ?head
     = (Returned (Some (ErrorString ''malformed snapshot'')),
        \<lparr>syncingID = 1,
         world = demoStored\<lparr>nextBatches := [(''@u:hs'', ''s1'')], rejected := [''s1'']\<rparr>,
         trace = [SyncerProcessResponse ?rs [], StoreSaveNextBatch ''@u:hs'' ''s1'',
                  HttpDo ?req, CallSyncRequest 30000 [] ''f1'' False []]\<rparr>)"
    by (simp add: demoEnv_simps demoClient_simps getSyncingID_def settle_def demoStored_def
        demoWorld0_def Let_def)
  from a b j k c show ?thesis by blast
qed

subsection \<open>The cursor of the next long poll\<close>

lemma lastSaved_quiet: "\<not> isLoopEvent e \<Longrightarrow> lastSaved uid (e # tr) = lastSaved uid tr"
  by (cases e) simp_all

lemma sinceIsLastSaved_quiet:
  "\<not> isLoopEvent e \<Longrightarrow> sinceIsLastSaved uid (e # tr) = sinceIsLastSaved uid tr"
  by (cases e) simp_all

lemma syncLoop_first_call:
  "\<exists>tr. trace (snd (syncLoop (Suc n) env cli sid nextBatch filterID st)) =
          tr @ CallSyncRequest 30000 nextBatch filterID False [] # trace st"
proof -
  let ?call = "CallSyncRequest 30000 nextBatch filterID False []"
  let ?final = "snd (syncLoop (Suc n) env cli sid nextBatch filterID st)"
  obtain out resSync st1 where sr:
    "SyncRequest n env cli 30000 nextBatch filterID False [] (log ?call st) = (out, resSync, st1)"
    by (cases "SyncRequest n env cli 30000 nextBatch filterID False [] (log ?call st)")
  from SyncRequest_events [of n env cli 30000 nextBatch filterID False "[]" "log ?call st"] sr
  obtain tr1 where tr1: "trace st1 = tr1 @ ?call # trace st"
    by (auto simp: log_def)
  have "\<exists>tr. trace ?final = tr @ trace st1"
  proof (cases out)
    case OutOfFuel
    with sr show ?thesis by (simp add: syncLoop.simps(2))
  next
    case Panic
    with sr show ?thesis by (simp add: syncLoop.simps(2))
  next
    case (Returned err)
    show ?thesis
    proof (cases err)
      case (Some e)
      obtain dur err2 w2 where hook: "syncerOnFailedSync env resSync e (world st1) = ((dur, err2), w2)"
        by (cases "syncerOnFailedSync env resSync e (world st1)") auto
      let ?st2 = "log (SyncerOnFailedSync resSync e) (st1\<lparr>world := w2\<rparr>)"
      show ?thesis
      proof (cases err2)
        case None
        have "?final = snd (syncLoop n env cli sid nextBatch filterID (log (Sleep dur) ?st2))"
          using sr Returned Some hook None by (simp add: syncLoop.simps(2))
        with syncLoop_extends [of n env cli sid nextBatch filterID "log (Sleep dur) ?st2"]
        show ?thesis by (auto simp: log_def)
      next
        case e2: (Some e2)
        with sr Returned Some hook have "?final = ?st2"
          by (simp add: syncLoop.simps(2))
        then show ?thesis by (simp add: log_def)
      qed
    next
      case None
      obtain cur st2 where g: "getSyncingID env st1 = (cur, st2)"
        by (cases "getSyncingID env st1")
      have tr2: "trace st2 = trace st1"
        using getSyncingID_trace [of env st1] g by simp
      show ?thesis
      proof (cases "cur \<noteq> sid \<or> resSync = None")
        case True
        with sr Returned None g have "?final = st2"
          by (auto simp: syncLoop.simps(2))
        with tr2 show ?thesis by simp
      next
        case False
        then obtain rs where rs: "resSync = Some rs" and cur: "fst (getSyncingID env st1) = sid"
          using g by auto
        from syncLoop_dispatches [OF sr [unfolded Returned None rs] cur]
        show ?thesis by auto
      qed
    qed
  qed
  with tr1 show ?thesis by auto
qed

text \<open>
  After an iteration that saved the cursor of its snapshot and dispatched the snapshot
  without an error, the loop is at the head of the next iteration with the cursor that the
  snapshot holds after the dispatch, and calls \<^verbatim>\<open>SyncRequest\<close> with it.
\<close>

lemma syncLoop_next_since:
  assumes "SyncRequest (Suc n) env cli 30000 nextBatch filterID False []
             (log (CallSyncRequest 30000 nextBatch filterID False []) st) = (Returned None, Some rs, st1)"
    and "fst (getSyncingID env st1) = sid"
    and "syncerProcessResponse env rs nextBatch
           (storeSaveNextBatch env (UserID cli) (NextBatch rs)
              (world (snd (getSyncingID env st1)))) = ((None, rs'), w4)"
  shows "syncLoop (Suc (Suc n)) env cli sid nextBatch filterID st =
           syncLoop (Suc n) env cli sid (NextBatch rs') filterID
             ((snd (getSyncingID env st1))
                \<lparr>world := w4,
                 trace := SyncerProcessResponse rs nextBatch #
                          StoreSaveNextBatch (UserID cli) (NextBatch rs) # trace st1\<rparr>)"
    and "\<exists>tr. trace (snd (syncLoop (Suc (Suc n)) env cli sid nextBatch filterID st)) =
           tr @ CallSyncRequest 30000 (NextBatch rs') filterID False [] #
                SyncerProcessResponse rs nextBatch #
                StoreSaveNextBatch (UserID cli) (NextBatch rs) # trace st1"
proof -
  let ?st4 = "(snd (getSyncingID env st1))
                \<lparr>world := w4,
                 trace := SyncerProcessResponse rs nextBatch #
                          StoreSaveNextBatch (UserID cli) (NextBatch rs) # trace st1\<rparr>"
  show eq: "syncLoop (Suc (Suc n)) env cli sid nextBatch filterID st =
          syncLoop (Suc n) env cli sid (NextBatch rs') filterID ?st4"
    using syncLoop_passes [OF assms(1,2)] assms(3) by (simp add: Let_def)
  from syncLoop_first_call [of n env cli sid "NextBatch rs'" filterID ?st4]
  show "\<exists>tr. trace (snd (syncLoop (Suc (Suc n)) env cli sid nextBatch filterID st)) =
           tr @ CallSyncRequest 30000 (NextBatch rs') filterID False [] #
                SyncerProcessResponse rs nextBatch #
                StoreSaveNextBatch (UserID cli) (NextBatch rs) # trace st1"
    unfolding eq by simp
qed

lemma demoRewriting_simps:
  "jsonEncode demoRewriting = jsonEncode demoEnv"
  "newRequestError demoRewriting = newRequestError demoEnv"
  "clientDo demoRewriting = clientDo demoEnv"
  "unmarshalRespError demoRewriting = unmarshalRespError demoEnv"
  "urlPath demoRewriting = urlPath demoEnv"
  "parseHTTPTime demoRewriting = parseHTTPTime demoEnv"
  "timeUntil demoRewriting = timeUntil demoEnv"
  "decodeRespSync demoRewriting = decodeRespSync demoEnv"
  "decodeRespCreateFilter demoRewriting = decodeRespCreateFilter demoEnv"
  "storeLoadNextBatch demoRewriting = storeLoadNextBatch demoEnv"
  "storeLoadFilterID demoRewriting = storeLoadFilterID demoEnv"
  "storeSaveFilterID demoRewriting = storeSaveFilterID demoEnv"
  "storeSaveNextBatch demoRewriting = storeSaveNextBatch demoEnv"
  "syncerGetFilterJSON demoRewriting = syncerGetFilterJSON demoEnv"
  "syncerOnFailedSync demoRewriting = syncerOnFailedSync demoEnv"
  "syncerProcessResponse demoRewriting rs since w = ((None, rs\<lparr>NextBatch := ''x''\<rparr>), w)"
  "otherIncrements demoRewriting = otherIncrements demoEnv"
  by (simp_all add: demoRewriting_def)

text \<open>
  Claim C4, as the code has it. The loop does not keep the cursor it saved: after
  \<^verbatim>\<open>ProcessResponse\<close> it reads \<^verbatim>\<open>resSync.NextBatch\<close> again, through the pointer that the
  syncer was handed.

  \<^item> After an iteration that saved the cursor of its snapshot and dispatched the snapshot
    without an error, the loop is at the head of the next iteration, in the world the syncer
    left, and the next event is the call of \<^verbatim>\<open>SyncRequest\<close> whose \<^verbatim>\<open>since\<close> is the
    \<^verbatim>\<open>NextBatch\<close> of the snapshot as \<^verbatim>\<open>ProcessResponse\<close> left it.
  \<^item> When \<^verbatim>\<open>ProcessResponse\<close> never changes the \<^verbatim>\<open>NextBatch\<close> of a snapshot, then in
    every trace of \<^verbatim>\<open>Sync\<close> a call of \<^verbatim>\<open>SyncRequest\<close> that follows a \<^verbatim>\<open>SaveNextBatch\<close>
    passes as \<^verbatim>\<open>since\<close> exactly the cursor persisted last.
\<close>

theorem since_is_cursor_left_by_dispatch:
  "(SyncRequest (Suc m) env cli 30000 nextBatch filterID False []
         (log (CallSyncRequest 30000 nextBatch filterID False []) st0) = (Returned None, Some rs, st1)
       \<and> fst (getSyncingID env st1) = sid
       \<and> syncerProcessResponse env rs nextBatch
           (storeSaveNextBatch env (UserID cli) (NextBatch rs)
              (world (snd (getSyncingID env st1)))) = ((None, rs'), w4) \<longrightarrow>
      syncLoop (Suc (Suc m)) env cli sid nextBatch filterID st0 =
        syncLoop (Suc m) env cli sid (NextBatch rs') filterID
          ((snd (getSyncingID env st1))
             \<lparr>world := w4,
              trace := SyncerProcessResponse rs nextBatch #
                       StoreSaveNextBatch (UserID cli) (NextBatch rs) # trace st1\<rparr>)
      \<and> (\<exists>tr. trace (snd (syncLoop (Suc (Suc m)) env cli sid nextBatch filterID st0)) =
            tr @ CallSyncRequest 30000 (NextBatch rs') filterID False [] #
                 SyncerProcessResponse rs nextBatch #
                 StoreSaveNextBatch (UserID cli) (NextBatch rs) # trace st1))
   \<and> ((\<forall>r since w. NextBatch (snd (fst (syncerProcessResponse env r since w))) = NextBatch r)
       \<and> sinceIsLastSaved (UserID cli) (trace st) \<and> lastSaved (UserID cli) (trace st) = None \<longrightarrow>
      sinceIsLastSaved (UserID cli) (trace (snd (Sync n env cli st))))"
proof -
  let ?I = "\<lambda>nb tr. sinceIsLastSaved (UserID cli) tr \<and>
              (lastSaved (UserID cli) tr = None \<or> lastSaved (UserID cli) tr = Some nb)"
  have "sinceIsLastSaved (UserID cli) (trace (snd (Sync n env cli st)))"
    if keeps: "\<forall>r since w. NextBatch (snd (fst (syncerProcessResponse env r since w))) = NextBatch r"
      and "sinceIsLastSaved (UserID cli) (trace st)" "lastSaved (UserID cli) (trace st) = None"
  proof -
    have "\<exists>nb. ?I nb (trace (snd (Sync n env cli st)))"
    proof (rule Sync_invariant [where I = ?I])
      show "?I nb (e # tr)" if "?I nb tr" "\<not> isLoopEvent e" for nb e tr
        using that by (simp add: lastSaved_quiet sinceIsLastSaved_quiet)
      show "?I nb (CallSyncRequest 30000 nb f False [] # tr)" if "?I nb tr" for nb f tr
        using that by auto
      show "?I (NextBatch (snd (fst (syncerProcessResponse env r nb w))))
              (SyncerProcessResponse r nb # StoreSaveNextBatch (UserID cli) (NextBatch r) # tr)"
        if "?I nb tr" for nb r w tr
        using that keeps by simp
      show "?I nb (trace st)" for nb
        using that by simp
    qed
    then show ?thesis by blast
  qed
  then show ?thesis
    using syncLoop_next_since [of m env cli nextBatch filterID st0 rs st1 sid rs' w4] by blast
qed

text \<open>
  Three snapshots \<open>s1\<close>, \<open>s2\<close>, \<open>s3\<close>, the third one discarded because
  \<^verbatim>\<open>StopSync\<close> ran during its long poll; the syncer leaves the snapshots as they are.
\<close>

theorem since_is_cursor_left_by_dispatch_witness:
  "syncLoop (Suc (Suc (Suc 0))) demoEnv demoClient 1 [] ''f1''
       \<lparr>syncingID = 1,
        world = demoStored\<lparr>httpScript := [demoResponse 200 [] ''next_batch=s1'']\<rparr>,
        trace = []\<rparr>
     = syncLoop (Suc (Suc 0)) demoEnv demoClient 1 ''s1'' ''f1''
         \<lparr>syncingID = 1,
          world = demoStored\<lparr>nextBatches := [(''@u:hs'', ''s1'')]\<rparr>,
          trace = [SyncerProcessResponse \<lparr>NextBatch = ''s1'', Payload = []\<rparr> [],
                   StoreSaveNextBatch ''@u:hs'' ''s1'',
                   HttpDo \<lparr>reqMethod = ''GET'',
                     reqURL = \<lparr>urlHomeserver = ''https://hs'',
                               urlElems = [''/_matrix/client/v3'', ''sync''],
                               urlQuery = [(''timeout'', ''30000''), (''filter'', ''f1'')]\<rparr>,
                     reqHeader = [(''Content-Type'', ''application/json''),
                                  (''Authorization'', ''Bearer tok'')],
                     reqBody = None\<rparr>,
                   CallSyncRequest 30000 [] ''f1'' False []]\<rparr>
   \<and> (\<exists>tr. trace (snd (syncLoop (Suc (Suc (Suc 0))) demoEnv demoClient 1 [] ''f1''
                 \<lparr>syncingID = 1,
                  world = demoStored\<lparr>httpScript := [demoResponse 200 [] ''next_batch=s1'']\<rparr>,
                  trace = []\<rparr>)) =
          tr @ [CallSyncRequest 30000 ''s1'' ''f1'' False [],
                SyncerProcessResponse \<lparr>NextBatch = ''s1'', Payload = []\<rparr> [],
                StoreSaveNextBatch ''@u:hs'' ''s1'',
                HttpDo \<lparr>reqMethod = ''GET'',
                  reqURL = \<lparr>urlHomeserver = ''https://hs'',
                            urlElems = [''/_matrix/client/v3'', ''sync''],
                            urlQuery = [(''timeout'', ''30000''), (''filter'', ''f1'')]\<rparr>,
                  reqHeader = [(''Content-Type'', ''application/json''),
                               (''Authorization'', ''Bearer tok'')],
                  reqBody = None\<rparr>,
                CallSyncRequest 30000 [] ''f1'' False []])
   \<and> sinceIsLastSaved ''@u:hs''
     (trace (snd (Sync (Suc (Suc (Suc (Suc 0)))) demoEnv demoClient
        (demoState (demoStored\<lparr>httpScript := [demoResponse 200 [] ''next_batch=s1'',
                     demoResponse 200 [] ''next_batch=s2'', demoResponse 200 [] ''next_batch=s3''],
                   incrScript := [0, 0, 0, 1]\<rparr>)))))
   \<and> filter (\<lambda>e. \<not> isTransport e)
       (trace (snd (Sync (Suc (Suc (Suc (Suc 0)))) demoEnv demoClient
        (demoState (demoStored\<lparr>httpScript := [demoResponse 200 [] ''next_batch=s1'',
                     demoResponse 200 [] ''next_batch=s2'', demoResponse 200 [] ''next_batch=s3''],
                   incrScript := [0, 0, 0, 1]\<rparr>)))))
     = [CallSyncRequest 30000 ''s2'' ''f1'' False [],
        SyncerProcessResponse \<lparr>NextBatch = ''s2'', Payload = []\<rparr> ''s1'',
        StoreSaveNextBatch ''@u:hs'' ''s2'',
        CallSyncRequest 30000 ''s1'' ''f1'' False [],
        SyncerProcessResponse \<lparr>NextBatch = ''s1'', Payload = []\<rparr> [],
        StoreSaveNextBatch ''@u:hs'' ''s1'',
        CallSyncRequest 30000 [] ''f1'' False [],
        StoreLoadFilterID ''@u:hs'', StoreLoadNextBatch ''@u:hs'']"
proof -
  let ?st = "demoState (demoStored\<lparr>httpScript := [demoResponse 200 [] ''next_batch=s1'',
                     demoResponse 200 [] ''next_batch=s2'', demoResponse 200 [] ''next_batch=s3''],
                   incrScript := [0, 0, 0, 1]\<rparr>)"
  let ?head = "\<lparr>syncingID = 1,
               world = demoStored\<lparr>httpScript := [demoResponse 200 [] ''next_batch=s1'']\<rparr>,
               trace = []\<rparr>"
  let ?req = "\<lparr>reqMethod = ''GET'',
                  reqURL = \<lparr>urlHomeserver = ''https://hs'',
                            urlElems = [''/_matrix/client/v3'', ''sync''],
                            urlQuery = [(''timeout'', ''30000''), (''filter'', ''f1'')]\<rparr>,
                  reqHeader = [(''Content-Type'', ''application/json''),
                               (''Authorization'', ''Bearer tok'')],
                  reqBody = None\<rparr>"
  let ?polled = "\<lparr>syncingID = 1, world = demoStored,
               trace = [HttpDo ?req, CallSyncRequest 30000 [] ''f1'' False []]\<rparr>"
  let ?rs = "\<lparr>NextBatch = ''s1'', Payload = []\<rparr>"
  let ?saved = "demoStored\<lparr>nextBatches := [(''@u:hs'', ''s1'')]\<rparr>"
  note inst = since_is_cursor_left_by_dispatch
    [of "Suc 0" demoEnv demoClient "[]" "''f1''" ?head ?rs ?polled 1 ?rs ?saved ?st
       "Suc (Suc (Suc (Suc 0)))"]
  have sr: "SyncRequest (Suc (Suc 0)) demoEnv demoClient 30000 [] ''f1'' False []
              (log (CallSyncRequest 30000 [] ''f1'' False []) ?head) = (Returned None, Some ?rs, ?polled)"
    by (simp add: demo_sync_run demoStored_def)
  have g: "getSyncingID demoEnv ?polled = (1, ?polled)"
    by (simp add: demo_sync_run demoStored_def)
  have pr: "syncerProcessResponse demoEnv ?rs []
                (storeSaveNextBatch demoEnv (UserID demoClient) (NextBatch ?rs)
                   (world (snd (getSyncingID demoEnv ?polled)))) = ((None, ?rs), ?saved)"
    unfolding g by (simp add: demoEnv_simps demoClient_simps demoStored_def demoWorld0_def)
  have "fst (getSyncingID demoEnv ?polled) = 1"
    unfolding g by simp
  with sr pr inst [THEN conjunct1] have ab:
    "syncLoop (Suc (Suc (Suc 0))) demoEnv demoClient 1 [] ''f1'' ?head =
        syncLoop (Suc (Suc 0)) demoEnv demoClient 1 (NextBatch ?rs) ''f1''
          ((snd (getSyncingID demoEnv ?polled))
             \<lparr>world := ?saved,
              trace := SyncerProcessResponse ?rs [] #
                       StoreSaveNextBatch (UserID demoClient) (NextBatch ?rs) # trace ?polled\<rparr>)
      \<and> (\<exists>tr. trace (snd (syncLoop (Suc (Suc (Suc 0))) demoEnv demoClient 1 [] ''f1'' ?head)) =
            tr @ CallSyncRequest 30000 (NextBatch ?rs) ''f1'' False [] #
                 SyncerProcessResponse ?rs [] #
                 StoreSaveNextBatch (UserID demoClient) (NextBatch ?rs) # trace ?polled)"
    by blast
  from ab [THEN conjunct1]
  have a: "syncLoop (Suc (Suc (Suc 0))) demoEnv demoClient 1 [] ''f1'' ?head
     = syncLoop (Suc (Suc 0)) demoEnv demoClient 1 ''s1'' ''f1''
         \<lparr>syncingID = 1, world = ?saved,
          trace = [SyncerProcessResponse ?rs [], StoreSaveNextBatch ''@u:hs'' ''s1'',
                   HttpDo ?req, CallSyncRequest 30000 [] ''f1'' False []]\<rparr>"
    unfolding g by (simp add: demoClient_simps)
  from ab [THEN conjunct2]
  have b: "\<exists>tr. trace (snd (syncLoop (Suc (Suc (Suc 0))) demoEnv demoClient 1 [] ''f1'' ?head)) =
          tr @ [CallSyncRequest 30000 ''s1'' ''f1'' False [],
                SyncerProcessResponse ?rs [], StoreSaveNextBatch ''@u:hs'' ''s1'',
                HttpDo ?req, CallSyncRequest 30000 [] ''f1'' False []]"
    by (simp add: demoClient_simps)
  have keeps: "\<forall>r since w. NextBatch (snd (fst (syncerProcessResponse demoEnv r since w))) = NextBatch r"
    by (simp add: demoEnv_simps)
  have "sinceIsLastSaved (UserID demoClient) (trace ?st) \<and> lastSaved (UserID demoClient) (trace ?st) = None"
    by (simp add: demoState_def)
  with inst [THEN conjunct2] keeps
  have c: "sinceIsLastSaved ''@u:hs''
          (trace (snd (Sync (Suc (Suc (Suc (Suc 0)))) demoEnv demoClient ?st)))"
    by (simp add: demoClient_simps)
  have d: "filter (\<lambda>e. \<not> isTransport e)
       (trace (snd (Sync (Suc (Suc (Suc (Suc 0)))) demoEnv demoClient ?st)))
     = [CallSyncRequest 30000 ''s2'' ''f1'' False [],
        SyncerProcessResponse \<lparr>NextBatch = ''s2'', Payload = []\<rparr> ''s1'',
        StoreSaveNextBatch ''@u:hs'' ''s2'',
        CallSyncRequest 30000 ''s1'' ''f1'' False [],
        SyncerProcessResponse \<lparr>NextBatch = ''s1'', Payload = []\<rparr> [],
        StoreSaveNextBatch ''@u:hs'' ''s1'',
        CallSyncRequest 30000 [] ''f1'' False [],
        StoreLoadFilterID ''@u:hs'', StoreLoadNextBatch ''@u:hs'']"
    by (simp add: demo_sync_run demoStored_def)
  from a b c d show ?thesis by blast
qed

text \<open>
  The claim as the spec states it fails for a syncer that writes to the snapshot. With the
  syncer that sets \<^verbatim>\<open>NextBatch\<close> to \<open>x\<close>, the cursors \<open>s1\<close> and \<open>s2\<close> are saved, and
  the long polls that follow are called with \<open>x\<close>.
\<close>

theorem since_differs_from_persisted_cursor:
  "fst (Sync (Suc (Suc (Suc (Suc 0)))) demoRewriting demoClient
        (demoState (demoStored\<lparr>httpScript := [demoResponse 200 [] ''next_batch=s1'',
                     demoResponse 200 [] ''next_batch=s2'', demoResponse 200 [] ''next_batch=s3''],
                   incrScript := [0, 0, 0, 1]\<rparr>))) = Returned None
   \<and> filter (\<lambda>e. \<not> isTransport e)
       (trace (snd (Sync (Suc (Suc (Suc (Suc 0)))) demoRewriting demoClient
        (demoState (demoStored\<lparr>httpScript := [demoResponse 200 [] ''next_batch=s1'',
                     demoResponse 200 [] ''next_batch=s2'', demoResponse 200 [] ''next_batch=s3''],
                   incrScript := [0, 0, 0, 1]\<rparr>)))))
     = [CallSyncRequest 30000 ''x'' ''f1'' False [],
        SyncerProcessResponse \<lparr>NextBatch = ''s2'', Payload = []\<rparr> ''x'',
        StoreSaveNextBatch ''@u:hs'' ''s2'',
        CallSyncRequest 30000 ''x'' ''f1'' False [],
        SyncerProcessResponse \<lparr>NextBatch = ''s1'', Payload = []\<rparr> [],
        StoreSaveNextBatch ''@u:hs'' ''s1'',
        CallSyncRequest 30000 [] ''f1'' False [],
        StoreLoadFilterID ''@u:hs'', StoreLoadNextBatch ''@u:hs'']
   \<and> \<not> sinceIsLastSaved ''@u:hs''
       (trace (snd (Sync (Suc (Suc (Suc (Suc 0)))) demoRewriting demoClient
        (demoState (demoStored\<lparr>httpScript := [demoResponse 200 [] ''next_batch=s1'',
                     demoResponse 200 [] ''next_batch=s2'', demoResponse 200 [] ''next_batch=s3''],
                   incrScript := [0, 0, 0, 1]\<rparr>)))))"
  by (simp add: demoRewriting_simps newRequest_def demo_sync_run demoStored_def)

subsection \<open>A filter id that is already stored\<close>

text \<open>
  Claim C8. When the store holds a non-empty filter id for the user, \<^verbatim>\<open>Sync\<close> goes
  straight to the loop with that id: after the two loads no filter is asked for, created or
  saved, every \<^verbatim>\<open>SyncRequest\<close> gets the stored id, and every HTTP request is a \<^verbatim>\<open>GET\<close>
  that names it.
\<close>

theorem stored_filter_is_reused:
  assumes "syncPrologue env cli st = (sid, nextBatch, fid, st3)"
    and "fid \<noteq> []"
  shows "Sync n env cli st = syncLoop n env cli sid nextBatch fid st3
       \<and> (\<exists>tr. trace (snd (Sync n env cli st)) =
                  tr @ StoreLoadFilterID (UserID cli) # StoreLoadNextBatch (UserID cli) # trace st
              \<and> list_all (usesFilter fid) tr)"
proof -
  have eq: "Sync n env cli st = syncLoop n env cli sid nextBatch fid st3"
    using assms by (simp add: Sync_def)
  let ?I = "\<lambda>nb :: string. \<lambda>tr. \<exists>tr'. tr = tr' @ trace st3 \<and> list_all (usesFilter fid) tr'"
  have "\<exists>nb. ?I nb (trace (snd (syncLoop n env cli sid nextBatch fid st3)))"
  proof (rule syncLoop_invariant [where I = ?I])
    show "?I nb (CallSyncRequest 30000 nb fid False [] # tr)" if "?I nb tr" for nb tr
    proof -
      from that obtain tr' where "tr = tr' @ trace st3" "list_all (usesFilter fid) tr'"
        by blast
      then have "CallSyncRequest 30000 nb fid False [] # tr =
                   (CallSyncRequest 30000 nb fid False [] # tr') @ trace st3
                 \<and> list_all (usesFilter fid) (CallSyncRequest 30000 nb fid False [] # tr')"
        by simp
      then show ?thesis by blast
    qed
    show "?I nb (e # tr)"
      if "?I nb tr" "isTransport e" "fid \<noteq> [] \<longrightarrow> usesFilter fid e" for nb e tr
    proof -
      from that(1) obtain tr' where "tr = tr' @ trace st3" "list_all (usesFilter fid) tr'"
        by blast
      with that(3) assms(2) have "e # tr = (e # tr') @ trace st3 \<and> list_all (usesFilter fid) (e # tr')"
        by simp
      then show ?thesis by blast
    qed
    show "?I nb (SyncerOnFailedSync r e # tr)" if "?I nb tr" for nb r e tr
    proof -
      from that obtain tr' where "tr = tr' @ trace st3" "list_all (usesFilter fid) tr'"
        by blast
      then have "SyncerOnFailedSync r e # tr = (SyncerOnFailedSync r e # tr') @ trace st3
                 \<and> list_all (usesFilter fid) (SyncerOnFailedSync r e # tr')"
        by simp
      then show ?thesis by blast
    qed
    show "?I (NextBatch (snd (fst (syncerProcessResponse env rs nb w))))
            (SyncerProcessResponse rs nb # StoreSaveNextBatch (UserID cli) (NextBatch rs) # tr)"
      if "?I nb tr" for nb rs w tr
    proof -
      from that obtain tr' where "tr = tr' @ trace st3" "list_all (usesFilter fid) tr'"
        by blast
      then have "SyncerProcessResponse rs nb # StoreSaveNextBatch (UserID cli) (NextBatch rs) # tr =
                   (SyncerProcessResponse rs nb # StoreSaveNextBatch (UserID cli) (NextBatch rs) # tr')
                   @ trace st3
                 \<and> list_all (usesFilter fid)
                     (SyncerProcessResponse rs nb # StoreSaveNextBatch (UserID cli) (NextBatch rs) # tr')"
        by simp
      then show ?thesis by blast
    qed
    show "?I nextBatch (trace st3)"
      by simp
  qed
  with eq syncPrologue_trace [OF assms(1)] show ?thesis by simp
qed

theorem stored_filter_is_reused_witness:
  "Sync (Suc (Suc 0)) demoEnv demoClient
     (demoState (demoStored\<lparr>httpScript := [demoResponse 200 [] ''next_batch=s1''],
                              rejected := [''s1'']\<rparr>))
   = syncLoop (Suc (Suc 0)) demoEnv demoClient 1 [] ''f1''
       \<lparr>syncingID = 1,
        world = demoStored\<lparr>httpScript := [demoResponse 200 [] ''next_batch=s1''],
                           rejected := [''s1'']\<rparr>,
        trace = [StoreLoadFilterID ''@u:hs'', StoreLoadNextBatch ''@u:hs'']\<rparr>
   \<and> (\<exists>tr. trace (snd (Sync (Suc (Suc 0)) demoEnv demoClient
                 (demoState (demoStored\<lparr>httpScript := [demoResponse 200 [] ''next_batch=s1''],
                                          rejected := [''s1'']\<rparr>))))
              = tr @ StoreLoadFilterID ''@u:hs'' # StoreLoadNextBatch ''@u:hs'' # []
            \<and> list_all (usesFilter ''f1'') tr)
   \<and> fst (Sync (Suc (Suc 0)) demoEnv demoClient
           (demoState (demoStored\<lparr>httpScript := [demoResponse 200 [] ''next_batch=s1''],
                                    rejected := [''s1'']\<rparr>)))
     = Returned (Some (ErrorString ''malformed snapshot''))"
proof -
  let ?w = "demoStored\<lparr>httpScript := [demoResponse 200 [] ''next_batch=s1''], rejected := [''s1'']\<rparr>"
  let ?st3 = "\<lparr>syncingID = 1, world = ?w,
               trace = [StoreLoadFilterID ''@u:hs'', StoreLoadNextBatch ''@u:hs'']\<rparr>"
  have pro: "syncPrologue demoEnv demoClient (demoState ?w) = (1, [], ''f1'', ?st3)"
    by (simp add: demo_sync_run demoStored_def)
  have ne: "''f1'' \<noteq> []"
    by simp
  have tr0: "trace (demoState ?w) = []"
    by (simp add: demoState_def)
  have out: "fst (Sync (Suc (Suc 0)) demoEnv demoClient (demoState ?w))
               = Returned (Some (ErrorString ''malformed snapshot''))"
    by (simp add: demo_sync_run demoStored_def)
  note reuse = stored_filter_is_reused [OF pro ne, of "Suc (Suc 0)", unfolded demoClient_simps tr0]
  from reuse out show ?thesis
    by blast
qed

subsection \<open>A stale generation\<close>

text \<open>
  Claim C2. In an iteration whose long poll succeeds while \<^verbatim>\<open>syncingID\<close> no longer is
  the value taken when \<^verbatim>\<open>Sync\<close> started, \<^verbatim>\<open>Sync\<close> returns nil. Between the call of
  \<^verbatim>\<open>SyncRequest\<close> and the return the trace has events of the transport only, so neither
  \<^verbatim>\<open>SaveNextBatch\<close> nor \<^verbatim>\<open>ProcessResponse\<close> is called, and the world is the one the long
  poll left (but for the increments of the other goroutines).
\<close>

theorem stale_generation_discards_snapshot:
  assumes "SyncRequest n env cli 30000 nextBatch filterID False []
             (log (CallSyncRequest 30000 nextBatch filterID False []) st) = (Returned None, resSync, st1)"
    and "fst (getSyncingID env st1) \<noteq> sid"
  shows "syncLoop (Suc n) env cli sid nextBatch filterID st = (Returned None, snd (getSyncingID env st1))
       \<and> world (snd (getSyncingID env st1)) = snd (otherIncrements env (world st1))
       \<and> (\<exists>tr. trace (snd (getSyncingID env st1)) =
                  tr @ CallSyncRequest 30000 nextBatch filterID False [] # trace st
              \<and> list_all isTransport tr)"
proof -
  obtain cur st2 where g: "getSyncingID env st1 = (cur, st2)"
    by (cases "getSyncingID env st1")
  with assms(2) have "cur \<noteq> sid" by simp
  with assms(1) g have ret: "syncLoop (Suc n) env cli sid nextBatch filterID st = (Returned None, st2)"
    by (simp add: syncLoop.simps(2))
  have w: "world st2 = snd (otherIncrements env (world st1))"
    using g by (auto simp: getSyncingID_def settle_def Let_def split: prod.splits)
  from SyncRequest_events [of n env cli 30000 nextBatch filterID False "[]"
      "log (CallSyncRequest 30000 nextBatch filterID False []) st"] assms(1)
  obtain tr where "trace st1 = tr @ CallSyncRequest 30000 nextBatch filterID False [] # trace st"
    "list_all isTransport tr"
    by (auto simp: log_def)
  with getSyncingID_trace [of env st1] g have
    "trace st2 = tr @ CallSyncRequest 30000 nextBatch filterID False [] # trace st \<and> list_all isTransport tr"
    by simp
  with ret w g show ?thesis by auto
qed

text \<open>
  \<^verbatim>\<open>StopSync\<close> runs once during the long poll: the snapshot \<open>s1\<close> is dropped and the
  store keeps no cursor.
\<close>

theorem stale_generation_witness:
  "syncLoop (Suc (Suc 0)) demoEnv demoClient 1 [] ''f1''
     \<lparr>syncingID = 1,
      world = demoStored\<lparr>httpScript := [demoResponse 200 [] ''next_batch=s1''], incrScript := [1]\<rparr>,
      trace = []\<rparr>
   = (Returned None,
      \<lparr>syncingID = 2, world = demoStored,
       trace = [HttpDo \<lparr>reqMethod = ''GET'',
                  reqURL = \<lparr>urlHomeserver = ''https://hs'',
                            urlElems = [''/_matrix/client/v3'', ''sync''],
                            urlQuery = [(''timeout'', ''30000''), (''filter'', ''f1'')]\<rparr>,
                  reqHeader = [(''Content-Type'', ''application/json''),
                               (''Authorization'', ''Bearer tok'')],
                  reqBody = None\<rparr>,
                CallSyncRequest 30000 [] ''f1'' False []]\<rparr>)
   \<and> nextBatches demoStored = []"
proof -
  let ?st = "\<lparr>syncingID = 1,
      world = demoStored\<lparr>httpScript := [demoResponse 200 [] ''next_batch=s1''], incrScript := [1]\<rparr>,
      trace = []\<rparr>"
  let ?req = "\<lparr>reqMethod = ''GET'',
                  reqURL = \<lparr>urlHomeserver = ''https://hs'',
                            urlElems = [''/_matrix/client/v3'', ''sync''],
                            urlQuery = [(''timeout'', ''30000''), (''filter'', ''f1'')]\<rparr>,
                  reqHeader = [(''Content-Type'', ''application/json''),
                               (''Authorization'', ''Bearer tok'')],
                  reqBody = None\<rparr>"
  let ?st1 = "\<lparr>syncingID = 1, world = demoStored\<lparr>incrScript := [1]\<rparr>,
               trace = [HttpDo ?req, CallSyncRequest 30000 [] ''f1'' False []]\<rparr>"
  have sr: "SyncRequest (Suc 0) demoEnv demoClient 30000 [] ''f1'' False []
             (log (CallSyncRequest 30000 [] ''f1'' False []) ?st)
            = (Returned None, Some \<lparr>NextBatch = ''s1'', Payload = []\<rparr>, ?st1)"
    by (simp add: demo_sync_run demoStored_def)
  have g: "getSyncingID demoEnv ?st1 =
             (2, \<lparr>syncingID = 2, world = demoStored,
                  trace = [HttpDo ?req, CallSyncRequest 30000 [] ''f1'' False []]\<rparr>)"
    by (simp add: demo_sync_run demoStored_def)
  then have stale: "fst (getSyncingID demoEnv ?st1) \<noteq> 1"
    by simp
  have "nextBatches demoStored = []"
    by (simp add: demoStored_def demoWorld0_def)
  with stale_generation_discards_snapshot [OF sr stale, THEN conjunct1] g
  show ?thesis
    by simp
qed

subsection \<open>Creating the filter\<close>

text \<open>
  What \<^verbatim>\<open>Sync\<close> does with the result of \<^verbatim>\<open>CreateFilter\<close>. When the store holds no
  filter id, \<^verbatim>\<open>Sync\<close> asks the syncer for the filter document and calls
  \<^verbatim>\<open>CreateFilter\<close> with it. Up to the return of \<^verbatim>\<open>CreateFilter\<close> there is no long poll:
  no call of \<^verbatim>\<open>SyncRequest\<close> and no HTTP request other than a \<^verbatim>\<open>POST\<close>. If
  \<^verbatim>\<open>CreateFilter\<close> returns an error, \<^verbatim>\<open>Sync\<close> returns it in that very state. If it
  returns a filter and no error, \<^verbatim>\<open>Sync\<close> is the loop started with the returned id in the
  state in which \<^verbatim>\<open>SaveFilterID\<close> has just stored it; if it returns neither, \<^verbatim>\<open>Sync\<close>
  panics.
\<close>

lemma Sync_after_CreateFilter:
  assumes "syncPrologue env cli st = (sid, nextBatch, [], st3)"
    and "syncerGetFilterJSON env (UserID cli) (world st3) = (filterJSON, w4)"
    and "CreateFilter n env cli filterJSON
           (log (CallCreateFilter filterJSON)
              (log (SyncerGetFilterJSON (UserID cli)) (st3\<lparr>world := w4\<rparr>))) = (Returned err, resFilter, st5)"
  shows "(\<exists>tr. trace st5 = tr @ CallCreateFilter filterJSON # SyncerGetFilterJSON (UserID cli) #
                   StoreLoadFilterID (UserID cli) # StoreLoadNextBatch (UserID cli) # trace st
              \<and> list_all noLongPoll tr)
       \<and> (\<forall>e. err = Some e \<longrightarrow> Sync n env cli st = (Returned (Some e), st5))
       \<and> (\<forall>rf. err = None \<and> resFilter = Some rf \<longrightarrow>
             Sync n env cli st =
               syncLoop n env cli sid nextBatch (FilterID rf)
                 (log (StoreSaveFilterID (UserID cli) (FilterID rf))
                    (st5\<lparr>world := storeSaveFilterID env (UserID cli) (FilterID rf) (world st5)\<rparr>)))
       \<and> (err = None \<and> resFilter = None \<longrightarrow> Sync n env cli st = (Panic, st5))"
proof -
  let ?st4 = "log (CallCreateFilter filterJSON)
                (log (SyncerGetFilterJSON (UserID cli)) (st3\<lparr>world := w4\<rparr>))"
  from CreateFilter_events [of n env cli filterJSON ?st4] assms(3)
  obtain tr where "trace st5 = tr @ trace ?st4" "list_all noLongPoll tr"
    by auto
  then have t: "\<exists>tr. trace st5 = tr @ CallCreateFilter filterJSON # SyncerGetFilterJSON (UserID cli) #
                   StoreLoadFilterID (UserID cli) # StoreLoadNextBatch (UserID cli) # trace st
             \<and> list_all noLongPoll tr"
    using syncPrologue_trace [OF assms(1)] by (simp add: log_def)
  have e: "\<forall>e. err = Some e \<longrightarrow> Sync n env cli st = (Returned (Some e), st5)"
    using assms by (simp add: Sync_def Let_def)
  have s: "\<forall>rf. err = None \<and> resFilter = Some rf \<longrightarrow>
             Sync n env cli st =
               syncLoop n env cli sid nextBatch (FilterID rf)
                 (log (StoreSaveFilterID (UserID cli) (FilterID rf))
                    (st5\<lparr>world := storeSaveFilterID env (UserID cli) (FilterID rf) (world st5)\<rparr>))"
    using assms by (simp add: Sync_def Let_def)
  have p: "err = None \<and> resFilter = None \<longrightarrow> Sync n env cli st = (Panic, st5)"
    using assms by (simp add: Sync_def Let_def)
  show ?thesis
    by (rule conjI [OF t conjI [OF e conjI [OF s p]]])
qed

text \<open>
  Claim C5. The claim is that \<^verbatim>\<open>Sync\<close> returns the error without a long poll whenever
  the creation of the filter fails. The code does so only when \<^verbatim>\<open>CreateFilter\<close> reports
  the failure, and \<^verbatim>\<open>CreateFilter\<close> does not always report it:

  \<^item> the server answers the \<^verbatim>\<open>POST\<close> with 429 and the retry with 500. \<^verbatim>\<open>MakeRequest\<close>
    drops the error of the retry and decodes the body of the 429 response, an object without
    \<^verbatim>\<open>filter_id\<close>, into the result: \<^verbatim>\<open>CreateFilter\<close> returns a filter with the empty id
    and no error. \<^verbatim>\<open>Sync\<close> saves the empty id, starts the loop and sends a long poll
    without a filter; here \<^verbatim>\<open>StopSync\<close> runs during that long poll and \<^verbatim>\<open>Sync\<close> returns
    nil;
  \<^item> the server answers the \<^verbatim>\<open>POST\<close> with 200 and the body \<open>null\<close>. The decoder sets the
    result to nil and reports no error, and \<^verbatim>\<open>Sync\<close> panics on \<^verbatim>\<open>resFilter.FilterID\<close>
    instead of returning an error.
\<close>

theorem failed_filter_creation_is_not_reported:
  "fst (CreateFilter (Suc (Suc 0)) demoEnv demoClient ''{}''
          (demoState (demoWorld0\<lparr>httpScript :=
             [demo429, demoResponse 500 [] ''errcode=M_UNKNOWN'']\<rparr>))) = Returned None
   \<and> fst (snd (CreateFilter (Suc (Suc 0)) demoEnv demoClient ''{}''
          (demoState (demoWorld0\<lparr>httpScript :=
             [demo429, demoResponse 500 [] ''errcode=M_UNKNOWN'']\<rparr>)))) = Some \<lparr>FilterID = []\<rparr>
   \<and> Sync (Suc (Suc 0)) demoEnv demoClient
        (demoState (demoWorld0\<lparr>httpScript :=
           [demo429, demoResponse 500 [] ''errcode=M_UNKNOWN'', demoResponse 200 [] ''next_batch=s1''],
           incrScript := [0, 1]\<rparr>))
     = (Returned None,
        \<lparr>syncingID = 2,
         world = demoWorld0\<lparr>filterIDs := [(''@u:hs'', [])]\<rparr>,
         trace =
           [HttpDo \<lparr>reqMethod = ''GET'',
              reqURL = \<lparr>urlHomeserver = ''https://hs'',
                        urlElems = [''/_matrix/client/v3'', ''sync''],
                        urlQuery = [(''timeout'', ''30000'')]\<rparr>,
              reqHeader = [(''Content-Type'', ''application/json''),
                           (''Authorization'', ''Bearer tok'')],
              reqBody = None\<rparr>,
            CallSyncRequest 30000 [] [] False [],
            StoreSaveFilterID ''@u:hs'' [],
            HttpDo \<lparr>reqMethod = ''POST'',
              reqURL = \<lparr>urlHomeserver = ''https://hs'',
                        urlElems = [''/_matrix/client/v3'', ''user'', ''@u:hs'', ''filter''],
                        urlQuery = []\<rparr>,
              reqHeader = [(''Content-Type'', ''application/json''),
                           (''Authorization'', ''Bearer tok'')],
              reqBody = Some ''{}''\<rparr>,
            Sleep 5000000000,
            HttpDo \<lparr>reqMethod = ''POST'',
              reqURL = \<lparr>urlHomeserver = ''https://hs'',
                        urlElems = [''/_matrix/client/v3'', ''user'', ''@u:hs'', ''filter''],
                        urlQuery = []\<rparr>,
              reqHeader = [(''Content-Type'', ''application/json''),
                           (''Authorization'', ''Bearer tok'')],
              reqBody = Some ''{}''\<rparr>,
            CallCreateFilter ''{}'', SyncerGetFilterJSON ''@u:hs'',
            StoreLoadFilterID ''@u:hs'', StoreLoadNextBatch ''@u:hs'']\<rparr>)
   \<and> Sync (Suc 0) demoEnv demoClient
        (demoState (demoWorld0\<lparr>httpScript := [demoResponse 200 [] ''null'']\<rparr>))
     = (Panic,
        \<lparr>syncingID = 1,
         world = demoWorld0,
         trace =
           [HttpDo \<lparr>reqMethod = ''POST'',
              reqURL = \<lparr>urlHomeserver = ''https://hs'',
                        urlElems = [''/_matrix/client/v3'', ''user'', ''@u:hs'', ''filter''],
                        urlQuery = []\<rparr>,
              reqHeader = [(''Content-Type'', ''application/json''),
                           (''Authorization'', ''Bearer tok'')],
              reqBody = Some ''{}''\<rparr>,
            CallCreateFilter ''{}'', SyncerGetFilterJSON ''@u:hs'',
            StoreLoadFilterID ''@u:hs'', StoreLoadNextBatch ''@u:hs'']\<rparr>)"
proof -
  let ?w = "demoWorld0\<lparr>httpScript := [demo429, demoResponse 500 [] ''errcode=M_UNKNOWN'']\<rparr>"
  have a: "fst (CreateFilter (Suc (Suc 0)) demoEnv demoClient ''{}'' (demoState ?w)) = Returned None"
    by (simp add: newRequest_def demo_sync_run)
  have b: "fst (snd (CreateFilter (Suc (Suc 0)) demoEnv demoClient ''{}'' (demoState ?w)))
             = Some \<lparr>FilterID = []\<rparr>"
    by (simp add: newRequest_def demo_sync_run)
  have c: "Sync (Suc (Suc 0)) demoEnv demoClient
        (demoState (demoWorld0\<lparr>httpScript :=
           [demo429, demoResponse 500 [] ''errcode=M_UNKNOWN'', demoResponse 200 [] ''next_batch=s1''],
           incrScript := [0, 1]\<rparr>))
     = (Returned None,
        \<lparr>syncingID = 2,
         world = demoWorld0\<lparr>filterIDs := [(''@u:hs'', [])]\<rparr>,
         trace =
           [HttpDo \<lparr>reqMethod = ''GET'',
              reqURL = \<lparr>urlHomeserver = ''https://hs'',
                        urlElems = [''/_matrix/client/v3'', ''sync''],
                        urlQuery = [(''timeout'', ''30000'')]\<rparr>,
              reqHeader = [(''Content-Type'', ''application/json''),
                           (''Authorization'', ''Bearer tok'')],
              reqBody = None\<rparr>,
            CallSyncRequest 30000 [] [] False [],
            StoreSaveFilterID ''@u:hs'' [],
            HttpDo \<lparr>reqMethod = ''POST'',
              reqURL = \<lparr>urlHomeserver = ''https://hs'',
                        urlElems = [''/_matrix/client/v3'', ''user'', ''@u:hs'', ''filter''],
                        urlQuery = []\<rparr>,
              reqHeader = [(''Content-Type'', ''application/json''),
                           (''Authorization'', ''Bearer tok'')],
              reqBody = Some ''{}''\<rparr>,
            Sleep 5000000000,
            HttpDo \<lparr>reqMethod = ''POST'',
              reqURL = \<lparr>urlHomeserver = ''https://hs'',
                        urlElems = [''/_matrix/client/v3'', ''user'', ''@u:hs'', ''filter''],
                        urlQuery = []\<rparr>,
              reqHeader = [(''Content-Type'', ''application/json''),
                           (''Authorization'', ''Bearer tok'')],
              reqBody = Some ''{}''\<rparr>,
            CallCreateFilter ''{}'', SyncerGetFilterJSON ''@u:hs'',
            StoreLoadFilterID ''@u:hs'', StoreLoadNextBatch ''@u:hs'']\<rparr>)"
    by (simp add: newRequest_def demo_sync_run)
  have d: "Sync (Suc 0) demoEnv demoClient
        (demoState (demoWorld0\<lparr>httpScript := [demoResponse 200 [] ''null'']\<rparr>))
     = (Panic,
        \<lparr>syncingID = 1,
         world = demoWorld0,
         trace =
           [HttpDo \<lparr>reqMethod = ''POST'',
              reqURL = \<lparr>urlHomeserver = ''https://hs'',
                        urlElems = [''/_matrix/client/v3'', ''user'', ''@u:hs'', ''filter''],
                        urlQuery = []\<rparr>,
              reqHeader = [(''Content-Type'', ''application/json''),
                           (''Authorization'', ''Bearer tok'')],
              reqBody = Some ''{}''\<rparr>,
            CallCreateFilter ''{}'', SyncerGetFilterJSON ''@u:hs'',
            StoreLoadFilterID ''@u:hs'', StoreLoadNextBatch ''@u:hs'']\<rparr>)"
    by (simp add: newRequest_def demo_sync_run)
  from a b c d show ?thesis by blast
qed

end
